theory Spec2Isabelle
  imports Main "HOL-Library.Word"
begin

section \<open>Data model of the RTC module (src/src/rtc.cpp)\<close>

text \<open>
  The firmware runs on a 32-bit target: \<open>uint32_t\<close>, \<open>unsigned long\<close> and \<open>int\<close> are
  32 bits wide.  Unsigned values are \<open>32 word\<close>, so that \<open>+\<close> and \<open>-\<close> wrap around as
  the C arithmetic does; a C \<open>int\<close> that takes part in unsigned arithmetic is converted
  with \<open>word_of_int\<close>, and a value returned as \<open>int\<close> is read back with \<open>sint\<close>.
\<close>

type_synonym u32 = "32 word"

text \<open>Of \<open>RetResult\<close> the module uses the two values \<open>RET_OK\<close> and \<open>RET_ERROR\<close>.\<close>

datatype RetResult = RET_OK | RET_ERROR

datatype TIME_SOURCE =
  TIME_SOURCE_OTHER | TIME_SOURCE_NTP | TIME_SOURCE_HTTP | TIME_SOURCE_GSM

text \<open>
  Compile-time configuration.  \<open>const.h\<close> and the \<open>FLAGS\<close> structure are not part of the
  sources at hand, so the constants that \<open>rtc.cpp\<close> reads are parameters of the model.
  \<open>url_explode_ok\<close> is the outcome of \<open>Utils::url_explode\<close> on the constant
  \<open>HTTP_TIME_SYNC_URL\<close>.  \<open>GSM_TRIES\<close> is taken to be non-negative.
\<close>

record config =
  EXTERNAL_RTC_ENABLED :: bool
  FAIL_CHECK_TIMESTAMP_START :: u32
  FAIL_CHECK_TIMESTAMP_END :: u32
  GSM_TRIES :: nat
  GSM_RETRY_DELAY_MS :: nat
  SECONDS_IN_2000 :: u32
  url_explode_ok :: bool

text \<open>
  Everything the module does to the outside world is recorded, in order, in a trace.
\<close>

datatype event =
    EvConnectPersist
  | EvHttpGet
  | EvUpdateNtpTime
  | EvGsmGetTime
  | EvExtRtcRead
  | EvExtRtcWrite u32
  | EvSetTimeOfDay u32
  | EvLogRtcSync u32 TIME_SOURCE
  | EvLogUnsafeTimechange u32
  | EvDelay nat

text \<open>
  The state: the four private variables of namespace \<open>RTC\<close>, the two clocks of the
  platform, and the trace.  \<open>uptime_ms\<close> is the free-running time since boot, of which
  \<open>millis()\<close> returns the low 32 bits.  The settable wall clock is kept as its offset from
  the uptime, in milliseconds: \<open>time(NULL)\<close> is \<open>(wall_offset_ms + uptime_ms) / 1000\<close>,
  it advances with the uptime, and only \<open>settimeofday\<close> changes \<open>wall_offset_ms\<close>.
\<close>

record world =
  last_sync_tick :: u32
  last_drift_check_tstamp :: u32
  last_drift_check_tick :: u32
  timechange_safety_enabled :: bool
  uptime_ms :: nat
  wall_offset_ms :: int
  trace :: "event list"

text \<open>
  The collaborators whose code is outside \<open>rtc.cpp\<close> (modem, HTTP transport, RTC chip,
  \<open>settimeofday\<close>).  Each answers as a function of the uptime at which it is called;
  the blocking ones also say how many milliseconds they take.  \<open>get_time\<close> gives
  \<open>mktime(&tm_now)\<close> of the broken-down time the modem filled in, converted to
  \<open>uint32_t\<close>.  \<open>http_get\<close> gives the bytes written to the response buffer up to the
  first NUL.
\<close>

record env =
  is_gprs_connected :: "nat \<Rightarrow> bool"
  connect_persist :: "nat \<Rightarrow> RetResult \<times> nat"
  http_get :: "nat \<Rightarrow> RetResult \<times> string \<times> nat"
  update_ntp_time :: "nat \<Rightarrow> RetResult \<times> nat"
  get_time :: "nat \<Rightarrow> RetResult \<times> u32 \<times> nat"
  ext_rtc_epoch32 :: "nat \<Rightarrow> u32"
  ext_rtc_last_error :: "nat \<Rightarrow> nat"
  settimeofday_ok :: "nat \<Rightarrow> bool"

section \<open>Platform primitives\<close>

definition millis :: "world \<Rightarrow> u32" where
  "millis w = word_of_nat (uptime_ms w)"

definition get_timestamp :: "world \<Rightarrow> u32" where
  "get_timestamp w = word_of_int ((wall_offset_ms w + int (uptime_ms w)) div 1000)"

definition emit :: "event \<Rightarrow> world \<Rightarrow> world" where
  "emit e w = w\<lparr>trace := trace w @ [e]\<rparr>"

definition elapse :: "nat \<Rightarrow> world \<Rightarrow> world" where
  "elapse d w = w\<lparr>uptime_ms := uptime_ms w + d\<rparr>"

definition delay :: "nat \<Rightarrow> world \<Rightarrow> world" where
  "delay d w = elapse d (emit (EvDelay d) w)"

text \<open>
  \<open>settimeofday(&tv, NULL)\<close> with \<open>tv_sec = t\<close> and \<open>tv_usec = 0\<close>: on success the wall
  clock reads \<open>t\<close> from now on; on failure nothing changes.
\<close>

definition settimeofday :: "env \<Rightarrow> u32 \<Rightarrow> world \<Rightarrow> bool \<times> world" where
  "settimeofday env t w =
     (if settimeofday_ok env (uptime_ms w)
      then (True, emit (EvSetTimeOfDay t)
                    (w\<lparr>wall_offset_ms := 1000 * uint t - int (uptime_ms w)\<rparr>))
      else (False, w))"

definition get_external_rtc_timestamp :: "env \<Rightarrow> world \<Rightarrow> u32 \<times> world" where
  "get_external_rtc_timestamp env w = (ext_rtc_epoch32 env (uptime_ms w), emit EvExtRtcRead w)"

section \<open>Plausibility window and safety gate\<close>

definition tstamp_valid :: "config \<Rightarrow> u32 \<Rightarrow> bool" where
  "tstamp_valid cfg tstamp =
     (tstamp > FAIL_CHECK_TIMESTAMP_START cfg \<and> tstamp < FAIL_CHECK_TIMESTAMP_END cfg)"

text \<open>
  \<open>int tol = ceil((millis() - _last_sync_tick) / 1000) * 0.05; tol = tol < 10 ? 10 : tol;\<close>
  The quotient is an unsigned integer division, \<open>ceil\<close> is applied to that integer and
  leaves it as it is, and the product with \<open>0.05\<close> is truncated by the conversion to
  \<open>int\<close>.  For a number of seconds below \<open>2^32 / 1000\<close> the truncated double product is
  the integer quotient by 20.
\<close>

definition timechange_tol :: "u32 \<Rightarrow> int" where
  "timechange_tol elapsed_ms =
     (let tol = uint (elapsed_ms div 1000) div 20 in if tol < 10 then 10 else tol)"

definition check_timechange_safe :: "config \<Rightarrow> u32 \<Rightarrow> world \<Rightarrow> bool \<times> world" where
  "check_timechange_safe cfg tstamp w =
     (if \<not> tstamp_valid cfg tstamp then (False, w)
      else if timechange_safety_enabled w then
        (if \<not> EXTERNAL_RTC_ENABLED cfg then (True, w)
         else
           let cur_tstamp = get_timestamp w;
               tol = timechange_tol (millis w - last_sync_tick w)
           in if tstamp < cur_tstamp - word_of_int tol \<or> tstamp > cur_tstamp + word_of_int tol
              then (False, emit (EvLogUnsafeTimechange tstamp) w)
              else (True, w))
      else (True, w))"

definition enable_timechange_safety :: "bool \<Rightarrow> world \<Rightarrow> world" where
  "enable_timechange_safety val w = w\<lparr>timechange_safety_enabled := val\<rparr>"

section \<open>Drift detector\<close>

definition reset_drift_check :: "world \<Rightarrow> world" where
  "reset_drift_check w =
     w\<lparr>last_drift_check_tick := millis w, last_drift_check_tstamp := get_timestamp w\<rparr>"

text \<open>\<open>abs((int)a - (int)b)\<close> stored in a \<open>uint32_t\<close>, given the 32-bit difference.\<close>

definition abs_int32 :: "u32 \<Rightarrow> u32" where
  "abs_int32 d = (if sint d > 0 then d else - d)"

text \<open>
  \<open>int tol = ceil(tick_since_sync_sec * 0.05); tol = tol < 10 ? 10 : tol;\<close>
  Here the ceiling is taken of the product; for a number of seconds below \<open>2^32 / 1000\<close>
  the double product is exact on multiples of 20 and stays strictly between two integers
  otherwise, so the result is the integer ceiling of the quotient by 20.
\<close>

definition drift_tol :: "u32 \<Rightarrow> int" where
  "drift_tol tick_since_sync_sec =
     (let tol = (uint tick_since_sync_sec + 19) div 20 in if tol < 10 then 10 else tol)"

definition tick_since_sync_sec :: "world \<Rightarrow> u32" where
  "tick_since_sync_sec w = (millis w - last_drift_check_tick w) div 1000"

definition tstamp_since_sync :: "u32 \<Rightarrow> world \<Rightarrow> u32" where
  "tstamp_since_sync cur_tstamp w = abs_int32 (cur_tstamp - last_drift_check_tstamp w)"

definition detect_drift :: "config \<Rightarrow> env \<Rightarrow> world \<Rightarrow> int \<times> world" where
  "detect_drift cfg env w =
     (if \<not> EXTERNAL_RTC_ENABLED cfg then (0, w)
      else
        let (cur_tstamp, w1) = get_external_rtc_timestamp env w in
        if last_drift_check_tick w1 = 0 \<or> last_drift_check_tstamp w1 = 0 then (0, w1)
        else
          let ticks = tick_since_sync_sec w1;
              tstamps = tstamp_since_sync cur_tstamp w1;
              tol = drift_tol ticks
          in if tstamps < ticks - word_of_int tol \<or> tstamps > ticks + word_of_int tol
             then (sint (tstamps - ticks), w1)
             else (0, w1))"

section \<open>Time sources\<close>

subsection \<open>Committing a timestamp\<close>

text \<open>
  \<open>set_system_time\<close> refuses the timestamp whose \<open>tv_sec\<close> reads \<open>-1\<close> (\<open>time_t\<close> is
  32 bits wide on this target) and otherwise calls \<open>settimeofday\<close>.
\<close>

definition set_system_time :: "env \<Rightarrow> u32 \<Rightarrow> world \<Rightarrow> RetResult \<times> world" where
  "set_system_time env timestamp w =
     (if timestamp = - 1 then (RET_ERROR, w)
      else case settimeofday env timestamp w of
             (True, w') \<Rightarrow> (RET_OK, w')
           | (False, w') \<Rightarrow> (RET_ERROR, w'))"

definition set_external_rtc_time :: "config \<Rightarrow> env \<Rightarrow> u32 \<Rightarrow> world \<Rightarrow> RetResult \<times> world" where
  "set_external_rtc_time cfg env timestamp w =
     (let secs_since_2000 = timestamp - SECONDS_IN_2000 cfg;
          w' = emit (EvExtRtcWrite secs_since_2000) w
      in if ext_rtc_last_error env (uptime_ms w') \<noteq> 0 then (RET_ERROR, w') else (RET_OK, w'))"

text \<open>\<open>print_time\<close> reads the chip once more, for display only.\<close>

definition print_time :: "env \<Rightarrow> world \<Rightarrow> world" where
  "print_time env w = snd (get_external_rtc_timestamp env w)"

subsection \<open>External RTC\<close>

text \<open>
  The source reads \<open>_ext_rtc.GetDateTime().Epoch32Time()\<close> in place, which is what
  \<open>get_external_rtc_timestamp\<close> returns, and calls \<open>settimeofday\<close> itself.
\<close>

definition sync_time_from_ext_rtc :: "config \<Rightarrow> env \<Rightarrow> world \<Rightarrow> RetResult \<times> world" where
  "sync_time_from_ext_rtc cfg env w =
     (if \<not> EXTERNAL_RTC_ENABLED cfg then (RET_ERROR, w)
      else
        let (ext_rtc_tstamp, w1) = get_external_rtc_timestamp env w in
        case check_timechange_safe cfg ext_rtc_tstamp w1 of
          (False, w2) \<Rightarrow> (RET_ERROR, w2)
        | (True, w2) \<Rightarrow>
            (case settimeofday env ext_rtc_tstamp w2 of
               (False, w3) \<Rightarrow> (RET_ERROR, w3)
             | (True, w3) \<Rightarrow> (RET_OK, print_time env w3)))"

subsection \<open>Modem: NTP trigger and clock read\<close>

definition GSM_connect_persist :: "env \<Rightarrow> world \<Rightarrow> RetResult \<times> world" where
  "GSM_connect_persist env w =
     (let (r, d) = connect_persist env (uptime_ms w) in (r, elapse d (emit EvConnectPersist w)))"

definition GSM_update_ntp_time :: "env \<Rightarrow> world \<Rightarrow> RetResult \<times> world" where
  "GSM_update_ntp_time env w =
     (let (r, d) = update_ntp_time env (uptime_ms w) in (r, elapse d (emit EvUpdateNtpTime w)))"

definition GSM_get_time :: "env \<Rightarrow> world \<Rightarrow> (RetResult \<times> u32) \<times> world" where
  "GSM_get_time env w =
     (let (r, tm, d) = get_time env (uptime_ms w) in ((r, tm), elapse d (emit EvGsmGetTime w)))"

text \<open>
  \<open>while(tries--) { ret = ...; if(ret != RET_OK && tries - 1) { delay(...); } else break; }\<close>
  The first argument is the value of \<open>tries\<close> that the loop condition tests; inside the
  body \<open>tries\<close> is already one less, and \<open>tries - 1\<close> is non-zero unless that is 1.
\<close>

fun ntp_loop :: "config \<Rightarrow> env \<Rightarrow> nat \<Rightarrow> RetResult \<Rightarrow> world \<Rightarrow> RetResult \<times> world" where
  "ntp_loop cfg env 0 ret w = (ret, w)"
| "ntp_loop cfg env (Suc tries) ret w =
     (case GSM_update_ntp_time env w of
        (ret', w') \<Rightarrow>
          if ret' \<noteq> RET_OK \<and> tries \<noteq> 1
          then ntp_loop cfg env tries ret' (delay (GSM_RETRY_DELAY_MS cfg) w')
          else (ret', w'))"

definition sync_gsm_rtc_from_ntp :: "config \<Rightarrow> env \<Rightarrow> world \<Rightarrow> RetResult \<times> world" where
  "sync_gsm_rtc_from_ntp cfg env w = ntp_loop cfg env (GSM_TRIES cfg) RET_ERROR w"

text \<open>
  The same loop around \<open>GSM::get_time\<close>; it also carries the time last read, which is
  looked at only when the last attempt succeeded.
\<close>

fun get_time_loop ::
  "config \<Rightarrow> env \<Rightarrow> nat \<Rightarrow> RetResult \<times> u32 \<Rightarrow> world \<Rightarrow> (RetResult \<times> u32) \<times> world" where
  "get_time_loop cfg env 0 r w = (r, w)"
| "get_time_loop cfg env (Suc tries) r w =
     (case GSM_get_time env w of
        ((ret', tm'), w') \<Rightarrow>
          if ret' \<noteq> RET_OK \<and> tries \<noteq> 1
          then get_time_loop cfg env tries (ret', tm') (delay (GSM_RETRY_DELAY_MS cfg) w')
          else ((ret', tm'), w'))"

definition sync_time_from_gsm_rtc :: "config \<Rightarrow> env \<Rightarrow> world \<Rightarrow> RetResult \<times> world" where
  "sync_time_from_gsm_rtc cfg env w =
     (case get_time_loop cfg env (GSM_TRIES cfg) (RET_ERROR, 0) w of
        ((ret, timestamp), w1) \<Rightarrow>
          if ret \<noteq> RET_OK then (ret, w1)
          else
            (case check_timechange_safe cfg timestamp w1 of
               (False, w2) \<Rightarrow> (RET_ERROR, w2)
             | (True, w2) \<Rightarrow> set_system_time env timestamp w2))"

subsection \<open>HTTP: parsing the body\<close>

text \<open>
  \<open>sscanf(resp, "%u", &timestamp)\<close>: white space is skipped, an optional sign is read,
  then decimal digits; without a digit nothing is stored.  The digits are converted as
  \<open>strtoul\<close> does: a value beyond \<open>ULONG_MAX\<close> gives \<open>ULONG_MAX\<close>, and a minus sign
  negates the value in the unsigned type.
\<close>

definition isspace :: "char \<Rightarrow> bool" where
  "isspace c = (c = CHR '' '' \<or> (9 \<le> (of_char c :: nat) \<and> (of_char c :: nat) \<le> 13))"

definition isdigit :: "char \<Rightarrow> bool" where
  "isdigit c = (48 \<le> (of_char c :: nat) \<and> (of_char c :: nat) \<le> 57)"

fun digits_val :: "nat \<Rightarrow> string \<Rightarrow> nat" where
  "digits_val acc [] = acc"
| "digits_val acc (c # cs) =
     (if isdigit c then digits_val (10 * acc + (of_char c - 48)) cs else acc)"

definition strip_sign :: "string \<Rightarrow> bool \<times> string" where
  "strip_sign s =
     (case s of
        [] \<Rightarrow> (False, [])
      | c # cs \<Rightarrow>
          if c = CHR ''-'' then (True, cs)
          else if c = CHR ''+'' then (False, cs)
          else (False, c # cs))"

definition sscanf_u :: "string \<Rightarrow> u32 option" where
  "sscanf_u s =
     (case strip_sign (dropWhile isspace s) of
        (neg, ds) \<Rightarrow>
          (case ds of
             [] \<Rightarrow> None
           | c # cs \<Rightarrow>
               if \<not> isdigit c then None
               else
                 let v = digits_val 0 ds in
                 if v > 4294967295 then Some (- 1)
                 else if neg then Some (- word_of_nat v)
                 else Some (word_of_nat v)))"

subsection \<open>HTTP: latency compensation\<close>

text \<open>
  \<open>int offset_sec = round((float)(end_time_ms - start_time_ms) / 1000);\<close>
  The difference is an unsigned 32-bit number.  Its conversion to single precision keeps
  24 significant bits, rounding to nearest with ties to even; the quotient by 1000 is
  again rounded to 24 significant bits; \<open>round\<close> then rounds to the nearest integer with
  ties away from zero.  All values are non-negative, so the computation is written on
  natural numbers: a single-precision value is \<open>q * 2 ^ k\<close> or \<open>q / 2 ^ s\<close> with
  \<open>q \<le> 2 ^ 24\<close>.
\<close>

definition round_half_even :: "nat \<Rightarrow> nat \<Rightarrow> nat" where
  "round_half_even m d =
     (let q = m div d; r = m mod d
      in if 2 * r > d \<or> (2 * r = d \<and> odd q) then q + 1 else q)"

function float_shift :: "nat \<Rightarrow> nat" where
  "float_shift n = (if n < 2 ^ 24 then 0 else Suc (float_shift (n div 2)))"
  by pat_completeness auto
termination
  by (relation "measure (\<lambda>n. n)") auto

declare float_shift.simps [simp del]

text \<open>The value of \<open>(float)x\<close>; it is a whole number.\<close>

definition float_of_u32 :: "u32 \<Rightarrow> nat" where
  "float_of_u32 x =
     (let n = unat x; k = float_shift n in round_half_even n (2 ^ k) * 2 ^ k)"

text \<open>
  For \<open>0 < a < 1000 * 2 ^ 23\<close> the quotient \<open>a / 1000\<close> lies below \<open>2 ^ 23\<close>, and
  \<open>div_scale a\<close> is the number \<open>s\<close> of binary places after the point of its 24-bit
  significand: the least \<open>s\<close> with \<open>a * 2 ^ s \<ge> 1000 * 2 ^ 23\<close>.
\<close>

function div_scale :: "nat \<Rightarrow> nat" where
  "div_scale a = (if a = 0 \<or> 1000 * 2 ^ 23 \<le> a then 0 else Suc (div_scale (2 * a)))"
  by pat_completeness auto
termination
  by (relation "measure (\<lambda>a. 1000 * 2 ^ 23 - a)") auto

declare div_scale.simps [simp del]

definition offset_sec :: "u32 \<Rightarrow> int" where
  "offset_sec elapsed_ms =
     (let a = float_of_u32 elapsed_ms;
          s = div_scale a;
          q = round_half_even (a * 2 ^ s) 1000
      in int ((2 * q + 2 ^ s) div (2 * 2 ^ s)))"

subsection \<open>HTTP: the source\<close>

text \<open>
  The response buffer has 20 bytes and its last byte is overwritten with NUL, so the
  string that is measured and parsed has at most 19 characters.
\<close>

definition http_candidate :: "u32 \<Rightarrow> u32 \<Rightarrow> string \<Rightarrow> u32" where
  "http_candidate start_time_ms end_time_ms resp =
     (let timestamp = (case sscanf_u resp of None \<Rightarrow> 0 | Some v \<Rightarrow> v)
      in timestamp - word_of_int (offset_sec (end_time_ms - start_time_ms)))"

definition sync_time_from_http :: "config \<Rightarrow> env \<Rightarrow> world \<Rightarrow> RetResult \<times> world" where
  "sync_time_from_http cfg env w =
     (let start_time_ms = millis w in
      if \<not> url_explode_ok cfg then (RET_ERROR, w)
      else
        case http_get env (uptime_ms w) of
          (r, body, d) \<Rightarrow>
            let w1 = elapse d (emit EvHttpGet w) in
            if r = RET_ERROR then (RET_ERROR, w1)
            else
              let end_time_ms = millis w1;
                  resp = take 19 body
              in if length resp \<noteq> 10 then (RET_ERROR, w1)
                 else
                   let timestamp = http_candidate start_time_ms end_time_ms resp in
                   (case check_timechange_safe cfg timestamp w1 of
                      (False, w2) \<Rightarrow> (RET_ERROR, w2)
                    | (True, w2) \<Rightarrow> set_system_time env timestamp w2))"

section \<open>Sync orchestrator\<close>

text \<open>
  The nested fallback of \<open>sync\<close> (the \<open>if\<close> on the network and everything inside it).
  It yields \<open>ret\<close>, \<open>time_source\<close> and \<open>update_ext_rtc\<close>.  The second call of
  \<open>GSM::is_gprs_connected\<close> only selects a debug message and is left out.
\<close>

definition sync_sources ::
  "config \<Rightarrow> env \<Rightarrow> world \<Rightarrow> (RetResult \<times> TIME_SOURCE \<times> bool) \<times> world" where
  "sync_sources cfg env w =
     (case (if is_gprs_connected env (uptime_ms w) then (RET_OK, w)
            else GSM_connect_persist env w) of
        (RET_OK, w0) \<Rightarrow>
          (case sync_time_from_http cfg env w0 of
             (RET_OK, w1) \<Rightarrow> ((RET_OK, TIME_SOURCE_HTTP, True), w1)
           | (RET_ERROR, w1) \<Rightarrow>
               (case sync_gsm_rtc_from_ntp cfg env w1 of
                  (r2, w2) \<Rightarrow>
                    (case (if r2 = RET_OK then sync_time_from_gsm_rtc cfg env w2
                           else (RET_ERROR, w2)) of
                       (RET_OK, w3) \<Rightarrow> ((RET_OK, TIME_SOURCE_NTP, True), w3)
                     | (RET_ERROR, w3) \<Rightarrow>
                         (case (if EXTERNAL_RTC_ENABLED cfg
                                then sync_time_from_ext_rtc cfg env w3
                                else (RET_ERROR, w3)) of
                            (RET_OK, w4) \<Rightarrow> ((RET_OK, TIME_SOURCE_OTHER, False), w4)
                          | (RET_ERROR, w4) \<Rightarrow>
                              (case sync_time_from_gsm_rtc cfg env w4 of
                                 (RET_OK, w5) \<Rightarrow> ((RET_OK, TIME_SOURCE_GSM, True), w5)
                               | (RET_ERROR, w5) \<Rightarrow>
                                   ((RET_ERROR, TIME_SOURCE_OTHER, True), w5))))))
      | (RET_ERROR, w0) \<Rightarrow>
          (case (if EXTERNAL_RTC_ENABLED cfg then sync_time_from_ext_rtc cfg env w0
                 else (RET_ERROR, w0)) of
             (RET_OK, w1) \<Rightarrow> ((RET_OK, TIME_SOURCE_OTHER, False), w1)
           | (RET_ERROR, w1) \<Rightarrow> ((RET_ERROR, TIME_SOURCE_OTHER, True), w1)))"

definition sync :: "config \<Rightarrow> env \<Rightarrow> bool \<Rightarrow> world \<Rightarrow> RetResult \<times> world" where
  "sync cfg env enable_safety w =
     (let w1 = enable_timechange_safety enable_safety
                 (w\<lparr>timechange_safety_enabled := enable_safety\<rparr>);
          tstamp_before_sync = get_timestamp w1
      in case sync_sources cfg env w1 of
           ((ret, time_source, update_ext_rtc), w2) \<Rightarrow>
             let w3 = (if EXTERNAL_RTC_ENABLED cfg \<and> update_ext_rtc \<and> ret = RET_OK
                       then snd (set_external_rtc_time cfg env (get_timestamp w2) w2)
                       else w2);
                 w4 = emit (EvLogRtcSync tstamp_before_sync time_source) w3;
                 w5 = w4\<lparr>last_sync_tick := millis w4\<rparr>;
                 w6 = (if ret = RET_OK then reset_drift_check w5 else w5)
             in (ret, enable_timechange_safety True w6))"

section \<open>The fallback chain as a list of sources\<close>

text \<open>
  The sources in the order in which \<open>sync\<close> tries them, to say what it means that every
  one of them fails.  \<open>sync_entry\<close> is the state after the first two statements of
  \<open>sync\<close>; \<open>network_stage\<close> is the condition of its outer \<open>if\<close>; \<open>ntp_source\<close> and
  \<open>ext_rtc_source\<close> are the two conjunctions
  \<open>sync_gsm_rtc_from_ntp() == RET_OK && sync_time_from_gsm_rtc() == RET_OK\<close> and
  \<open>FLAGS.EXTERNAL_RTC_ENABLED && sync_time_from_ext_rtc() == RET_OK\<close>.  With the network
  up the chain is HTTP, NTP, external RTC, modem clock; without it, the external RTC
  alone.  \<open>all_fail\<close> runs a chain from a state: each source is tried in the state the
  previous one left, and each returns something other than \<open>RET_OK\<close>.
\<close>

definition sync_entry :: "bool \<Rightarrow> world \<Rightarrow> world" where
  "sync_entry enable_safety w =
     enable_timechange_safety enable_safety (w\<lparr>timechange_safety_enabled := enable_safety\<rparr>)"

definition network_stage :: "env \<Rightarrow> world \<Rightarrow> RetResult \<times> world" where
  "network_stage env w =
     (if is_gprs_connected env (uptime_ms w) then (RET_OK, w) else GSM_connect_persist env w)"

definition ntp_source :: "config \<Rightarrow> env \<Rightarrow> world \<Rightarrow> RetResult \<times> world" where
  "ntp_source cfg env w =
     (case sync_gsm_rtc_from_ntp cfg env w of
        (r, w') \<Rightarrow> if r = RET_OK then sync_time_from_gsm_rtc cfg env w' else (RET_ERROR, w'))"

definition ext_rtc_source :: "config \<Rightarrow> env \<Rightarrow> world \<Rightarrow> RetResult \<times> world" where
  "ext_rtc_source cfg env w =
     (if EXTERNAL_RTC_ENABLED cfg then sync_time_from_ext_rtc cfg env w else (RET_ERROR, w))"

definition fallback_chain ::
  "config \<Rightarrow> env \<Rightarrow> RetResult \<Rightarrow> (world \<Rightarrow> RetResult \<times> world) list" where
  "fallback_chain cfg env network =
     (if network = RET_OK
      then [sync_time_from_http cfg env, ntp_source cfg env, ext_rtc_source cfg env,
            sync_time_from_gsm_rtc cfg env]
      else [ext_rtc_source cfg env])"

fun all_fail :: "(world \<Rightarrow> RetResult \<times> world) list \<Rightarrow> world \<Rightarrow> bool" where
  "all_fail [] w = True"
| "all_fail (source # sources) w =
     (fst (source w) \<noteq> RET_OK \<and> all_fail sources (snd (source w)))"

definition every_source_fails :: "config \<Rightarrow> env \<Rightarrow> bool \<Rightarrow> world \<Rightarrow> bool" where
  "every_source_fails cfg env enable_safety w =
     (case network_stage env (sync_entry enable_safety w) of
        (network, w0) \<Rightarrow> all_fail (fallback_chain cfg env network) w0)"

section \<open>Observations on traces\<close>

text \<open>Events that set the system clock, and how many of them a state has seen.\<close>

fun is_commit :: "event \<Rightarrow> bool" where
  "is_commit (EvSetTimeOfDay t) = True"
| "is_commit e = False"

definition commits :: "world \<Rightarrow> nat" where
  "commits w = length (filter is_commit (trace w))"

text \<open>The number of HTTP requests a state has seen.\<close>

definition http_gets :: "world \<Rightarrow> nat" where
  "http_gets w = count_list (trace w) EvHttpGet"

text \<open>
  Calls that consult a time source: the three that go through the modem, and the read of
  the external RTC.
\<close>

fun is_network_source :: "event \<Rightarrow> bool" where
  "is_network_source EvHttpGet = True"
| "is_network_source EvUpdateNtpTime = True"
| "is_network_source EvGsmGetTime = True"
| "is_network_source e = False"

fun is_time_source_read :: "event \<Rightarrow> bool" where
  "is_time_source_read EvExtRtcRead = True"
| "is_time_source_read e = is_network_source e"

fun is_ext_rtc_write :: "event \<Rightarrow> bool" where
  "is_ext_rtc_write (EvExtRtcWrite t) = True"
| "is_ext_rtc_write e = False"

text \<open>The events added between an earlier state and a later one.\<close>

definition new_events :: "world \<Rightarrow> world \<Rightarrow> event list" where
  "new_events w w' = drop (length (trace w)) (trace w')"

section \<open>Concrete configurations, environments and states\<close>

text \<open>
  A configuration with the external RTC enabled and a plausibility window from
  2020-09-13 to 2030-03-17, an environment in which every collaborator fails, and a few
  states; the examples below are evaluated on them.
\<close>

definition example_config :: config where
  "example_config =
     \<lparr>EXTERNAL_RTC_ENABLED = True,
      FAIL_CHECK_TIMESTAMP_START = 1600000000,
      FAIL_CHECK_TIMESTAMP_END = 1900000000,
      GSM_TRIES = 3,
      GSM_RETRY_DELAY_MS = 1000,
      SECONDS_IN_2000 = 946684800,
      url_explode_ok = True\<rparr>"

definition dead_env :: env where
  "dead_env =
     \<lparr>is_gprs_connected = (\<lambda>t. False),
      connect_persist = (\<lambda>t. (RET_ERROR, 30000)),
      http_get = (\<lambda>t. (RET_ERROR, [], 5000)),
      update_ntp_time = (\<lambda>t. (RET_ERROR, 2000)),
      get_time = (\<lambda>t. (RET_ERROR, 0, 500)),
      ext_rtc_epoch32 = (\<lambda>t. 0),
      ext_rtc_last_error = (\<lambda>t. 0),
      settimeofday_ok = (\<lambda>t. True)\<rparr>"

text \<open>
  201 seconds after the last sync, which was at tick 0; the wall clock reads 1700000000.
\<close>

definition gate_world :: world where
  "gate_world =
     \<lparr>last_sync_tick = 0,
      last_drift_check_tstamp = 1699999799,
      last_drift_check_tick = 1,
      timechange_safety_enabled = True,
      uptime_ms = 201000,
      wall_offset_ms = 1699999799000,
      trace = []\<rparr>"

text \<open>
  Five seconds after a checkpoint taken at tick 1 with timestamp 1000, while the external
  RTC reads 1006.
\<close>

definition drift_world :: world where
  "drift_world =
     \<lparr>last_sync_tick = 1,
      last_drift_check_tstamp = 1000,
      last_drift_check_tick = 1,
      timechange_safety_enabled = True,
      uptime_ms = 5001,
      wall_offset_ms = 1000000,
      trace = []\<rparr>"

definition drift_env :: env where
  "drift_env = dead_env\<lparr>ext_rtc_epoch32 := (\<lambda>t. 1006)\<rparr>"

text \<open>A quarter of a second after a cold boot: the wall clock still reads 0.\<close>

definition unset_clock_world :: world where
  "unset_clock_world =
     \<lparr>last_sync_tick = 0,
      last_drift_check_tstamp = 0,
      last_drift_check_tick = 0,
      timechange_safety_enabled = True,
      uptime_ms = 250,
      wall_offset_ms = 0,
      trace = []\<rparr>"

text \<open>
  No network, and an external RTC that reads 1700000030 (the wall-clock time of
  \<open>gate_world\<close> once the connection attempt has timed out).
\<close>

definition offline_env :: env where
  "offline_env = dead_env\<lparr>ext_rtc_epoch32 := (\<lambda>t. 1700000030)\<rparr>"

text \<open>
  A network that is up, an HTTP server that answers with ten letters after 2.5 seconds,
  and nothing else that works.
\<close>

definition failing_env :: env where
  "failing_env =
     dead_env\<lparr>is_gprs_connected := (\<lambda>t. True),
              http_get := (\<lambda>t. (RET_OK, ''abcdefghij'', 2500))\<rparr>"

text \<open>The same with a body of nine digits.\<close>

definition short_body_env :: env where
  "short_body_env = failing_env\<lparr>http_get := (\<lambda>t. (RET_OK, ''170000000'', 2500))\<rparr>"

text \<open>
  A network that is up and an HTTP server that answers \<open>1700000005\<close> after 2.5 seconds.
\<close>

definition http_env :: env where
  "http_env =
     dead_env\<lparr>is_gprs_connected := (\<lambda>t. True),
              http_get := (\<lambda>t. (RET_OK, ''1700000005'', 2500))\<rparr>"

text \<open>
  120 seconds after the checkpoint of \<open>drift_world\<close>, while the external RTC reads 1135.
\<close>

definition late_drift_world :: world where
  "late_drift_world = drift_world\<lparr>uptime_ms := 120001\<rparr>"

definition late_drift_env :: env where
  "late_drift_env = dead_env\<lparr>ext_rtc_epoch32 := (\<lambda>t. 1135)\<rparr>"

text \<open>
  The example configuration with a URL that does not parse, and with a plausibility
  window that is open at the top; and \<open>gate_world\<close> with safety disabled, as during the
  sync at boot.
\<close>

definition bad_url_config :: config where
  "bad_url_config = example_config\<lparr>url_explode_ok := False\<rparr>"

definition open_window_config :: config where
  "open_window_config = example_config\<lparr>FAIL_CHECK_TIMESTAMP_END := 4294967295\<rparr>"

definition boot_world :: world where
  "boot_world = gate_world\<lparr>timechange_safety_enabled := False\<rparr>"

section \<open>Auxiliary facts\<close>

subsection \<open>Fields untouched by the primitives\<close>

lemma emit_fields [simp]:
  "last_sync_tick (emit e w) = last_sync_tick w"
  "last_drift_check_tstamp (emit e w) = last_drift_check_tstamp w"
  "last_drift_check_tick (emit e w) = last_drift_check_tick w"
  "timechange_safety_enabled (emit e w) = timechange_safety_enabled w"
  "uptime_ms (emit e w) = uptime_ms w"
  "wall_offset_ms (emit e w) = wall_offset_ms w"
  "trace (emit e w) = trace w @ [e]"
  by (simp_all add: emit_def)

lemma elapse_fields [simp]:
  "last_sync_tick (elapse d w) = last_sync_tick w"
  "last_drift_check_tstamp (elapse d w) = last_drift_check_tstamp w"
  "last_drift_check_tick (elapse d w) = last_drift_check_tick w"
  "timechange_safety_enabled (elapse d w) = timechange_safety_enabled w"
  "uptime_ms (elapse d w) = uptime_ms w + d"
  "wall_offset_ms (elapse d w) = wall_offset_ms w"
  "trace (elapse d w) = trace w"
  by (simp_all add: elapse_def)

lemma millis_emit [simp]: "millis (emit e w) = millis w"
  by (simp add: millis_def)

lemma get_timestamp_emit [simp]: "get_timestamp (emit e w) = get_timestamp w"
  by (simp add: get_timestamp_def)

lemma tick_since_sync_sec_emit [simp]: "tick_since_sync_sec (emit e w) = tick_since_sync_sec w"
  by (simp add: tick_since_sync_sec_def)

lemma tstamp_since_sync_emit [simp]: "tstamp_since_sync c (emit e w) = tstamp_since_sync c w"
  by (simp add: tstamp_since_sync_def)

lemma commits_emit [simp]: "commits (emit e w) = commits w + (if is_commit e then 1 else 0)"
  by (simp add: commits_def)

lemma commits_update [simp]:
  "commits (w\<lparr>wall_offset_ms := x\<rparr>) = commits w"
  "commits (w\<lparr>last_sync_tick := y\<rparr>) = commits w"
  "commits (w\<lparr>timechange_safety_enabled := b\<rparr>) = commits w"
  "commits (w\<lparr>last_drift_check_tick := y\<rparr>) = commits w"
  "commits (w\<lparr>last_drift_check_tstamp := y\<rparr>) = commits w"
  by (simp_all add: commits_def)

lemma commits_elapse [simp]: "commits (elapse d w) = commits w"
  by (simp add: commits_def)

lemma delay_fields [simp]:
  "wall_offset_ms (delay d w) = wall_offset_ms w"
  "commits (delay d w) = commits w"
  by (simp_all add: delay_def)

lemma check_timechange_safe_frame [simp]:
  "wall_offset_ms (snd (check_timechange_safe cfg t w)) = wall_offset_ms w"
  "commits (snd (check_timechange_safe cfg t w)) = commits w"
  "uptime_ms (snd (check_timechange_safe cfg t w)) = uptime_ms w"
  by (simp_all add: check_timechange_safe_def Let_def)

lemma settimeofday_fail:
  "\<not> fst (settimeofday env t w) \<Longrightarrow> snd (settimeofday env t w) = w"
  by (simp add: settimeofday_def split: if_splits)

lemma settimeofday_ok_commits:
  "fst (settimeofday env t w) \<Longrightarrow> commits (snd (settimeofday env t w)) = commits w + 1"
  by (simp add: settimeofday_def split: if_splits)

lemma set_system_time_error:
  "fst (set_system_time env t w) = RET_ERROR \<Longrightarrow> snd (set_system_time env t w) = w"
  by (auto simp: set_system_time_def settimeofday_def split: if_splits prod.splits bool.splits)

lemma set_system_time_ok:
  "fst (set_system_time env t w) = RET_OK \<Longrightarrow>
     commits (snd (set_system_time env t w)) = commits w + 1"
  by (auto simp: set_system_time_def settimeofday_def split: if_splits prod.splits bool.splits)

lemma GSM_frames [simp]:
  "wall_offset_ms (snd (GSM_connect_persist env w)) = wall_offset_ms w"
  "commits (snd (GSM_connect_persist env w)) = commits w"
  "wall_offset_ms (snd (GSM_update_ntp_time env w)) = wall_offset_ms w"
  "commits (snd (GSM_update_ntp_time env w)) = commits w"
  "wall_offset_ms (snd (GSM_get_time env w)) = wall_offset_ms w"
  "commits (snd (GSM_get_time env w)) = commits w"
  by (simp_all add: GSM_connect_persist_def GSM_update_ntp_time_def GSM_get_time_def
      split: prod.splits)

lemma ntp_loop_frame:
  "wall_offset_ms (snd (ntp_loop cfg env n r w)) = wall_offset_ms w
   \<and> commits (snd (ntp_loop cfg env n r w)) = commits w"
proof (induction n arbitrary: r w)
  case 0
  then show ?case by simp
next
  case (Suc n)
  obtain r' w' where g: "GSM_update_ntp_time env w = (r', w')"
    by (cases "GSM_update_ntp_time env w")
  have f: "wall_offset_ms w' = wall_offset_ms w" "commits w' = commits w"
    using GSM_frames(3,4) [of env w] g by simp_all
  show ?case
    using Suc.IH [of r' "delay (GSM_RETRY_DELAY_MS cfg) w'"] f g by simp
qed

lemma get_time_loop_frame:
  "wall_offset_ms (snd (get_time_loop cfg env n r w)) = wall_offset_ms w
   \<and> commits (snd (get_time_loop cfg env n r w)) = commits w"
proof (induction n arbitrary: r w)
  case 0
  then show ?case by simp
next
  case (Suc n)
  obtain r' tm' w' where g: "GSM_get_time env w = ((r', tm'), w')"
    by (cases "GSM_get_time env w") auto
  have f: "wall_offset_ms w' = wall_offset_ms w" "commits w' = commits w"
    using GSM_frames(5,6) [of env w] g by simp_all
  show ?case
    using Suc.IH [of "(r', tm')" "delay (GSM_RETRY_DELAY_MS cfg) w'"] f g by simp
qed

lemma sync_gsm_rtc_from_ntp_frame [simp]:
  "wall_offset_ms (snd (sync_gsm_rtc_from_ntp cfg env w)) = wall_offset_ms w"
  "commits (snd (sync_gsm_rtc_from_ntp cfg env w)) = commits w"
  by (simp_all add: sync_gsm_rtc_from_ntp_def ntp_loop_frame)

lemma http_gets_frames [simp]:
  "http_gets (emit e w) = http_gets w + (if e = EvHttpGet then 1 else 0)"
  "http_gets (elapse d w) = http_gets w"
  "http_gets (w\<lparr>wall_offset_ms := x\<rparr>) = http_gets w"
  by (simp_all add: http_gets_def)

lemma http_gets_check_timechange_safe [simp]:
  "http_gets (snd (check_timechange_safe cfg t w)) = http_gets w"
  by (simp add: check_timechange_safe_def Let_def)

lemma http_gets_set_system_time [simp]:
  "http_gets (snd (set_system_time env t w)) = http_gets w"
  by (simp add: set_system_time_def settimeofday_def split: prod.splits bool.splits)

subsection \<open>32-bit words read as signed and unsigned numbers\<close>

lemma uint_pos_iff: "0 < uint (d :: 'a::len word) \<longleftrightarrow> d \<noteq> 0"
proof -
  have "0 \<le> uint d" by simp
  moreover have "uint d = 0 \<longleftrightarrow> d = 0" by (simp add: uint_0_iff)
  ultimately show ?thesis by linarith
qed

lemma sint_u32: "sint (d :: u32) = (if uint d < 2 ^ 31 then uint d else uint d - 2 ^ 32)"
proof -
  have b: "0 \<le> uint d" "uint d < 2 ^ 32" using uint_lt2p [of d] by simp_all
  have "sint d = (uint d + 2 ^ 31) mod 2 ^ 32 - 2 ^ 31"
    by (simp add: sint_uint signed_take_bit_eq_take_bit_shift take_bit_eq_mod)
  also have "\<dots> = (if uint d < 2 ^ 31 then uint d else uint d - 2 ^ 32)"
  proof (cases "uint d < 2 ^ 31")
    case True
    then have "(uint d + 2 ^ 31) mod 2 ^ 32 = uint d + 2 ^ 31" using b by simp
    then show ?thesis using True by simp
  next
    case False
    then have "(uint d + 2 ^ 31) mod 2 ^ 32 = uint d + 2 ^ 31 - 2 ^ 32"
      using b by (simp add: mod_pos_geq)
    then show ?thesis using False by simp
  qed
  finally show ?thesis .
qed

lemma sint_eq_0_u32: "sint (d :: u32) = 0 \<longleftrightarrow> d = 0"
proof -
  have "uint d < 2 ^ 32" using uint_lt2p [of d] by simp
  then show ?thesis
    using uint_pos_iff [of d] by (auto simp: sint_u32 split: if_splits)
qed

lemma uint_neg_u32: "uint (- d :: u32) = (if d = 0 then 0 else 2 ^ 32 - uint d)"
proof (cases "d = 0")
  case True then show ?thesis by simp
next
  case False
  then have "0 < uint d" by (simp add: uint_pos_iff)
  moreover have "uint d < 2 ^ 32" using uint_lt2p [of d] by simp
  ultimately have "(- uint d) mod 2 ^ 32 = 2 ^ 32 - uint d"
    by (simp add: zmod_zminus1_eq_if)
  then show ?thesis using False by (simp add: uint_word_ariths)
qed

lemma uint_abs_int32: "uint (abs_int32 d) \<le> 2147483648"
proof -
  have "uint d < 2 ^ 32" using uint_lt2p [of d] by simp
  then show ?thesis
    by (simp add: abs_int32_def sint_u32 uint_neg_u32 uint_pos_iff split: if_splits)
qed

lemma uint_sub_10_wrap:
  assumes "uint (x :: u32) < 10"
  shows "uint (x - 10) = uint x + 4294967286"
proof -
  have nonneg: "0 \<le> uint x" by simp
  have "(uint x - 10) mod 2 ^ 32 = (uint x - 10 + 2 ^ 32) mod 2 ^ 32"
    by (rule mod_add_self2 [symmetric])
  also have "\<dots> = uint x - 10 + 2 ^ 32"
    using nonneg assms by (intro mod_pos_pos_trivial) simp_all
  finally show ?thesis by (simp add: uint_word_ariths)
qed

subsection \<open>Tolerances\<close>

lemma drift_tol_small:
  "uint x < drift_tol x \<Longrightarrow> uint x < 10 \<and> drift_tol x = 10"
  by (auto simp: drift_tol_def Let_def split: if_splits)

lemma drift_world_values:
  "tick_since_sync_sec drift_world = 5"
  "tstamp_since_sync 1006 drift_world = 6"
  "drift_tol 5 = 10"
  by (simp_all add: tick_since_sync_sec_def tstamp_since_sync_def drift_tol_def abs_int32_def
      millis_def drift_world_def)

subsection \<open>The two bands where nothing wraps\<close>

lemma uint_word_of_int_u32: "0 \<le> k \<Longrightarrow> k < 4294967296 \<Longrightarrow> uint (word_of_int k :: u32) = k"
  by (simp add: uint_word_of_int)

lemma timechange_tol_range: "10 \<le> timechange_tol x \<and> timechange_tol x \<le> 214748"
proof -
  have "uint x < 4294967296" using uint_lt2p [of x] by simp
  then have "uint (x div 1000) \<le> 4294967"
    by (simp add: uint_div_distrib)
  then have "uint (x div 1000) div 20 \<le> 214748" by presburger
  then show ?thesis
    by (simp add: timechange_tol_def Let_def)
qed

lemma drift_tol_range:
  assumes "uint x \<le> 4294967"
  shows "10 \<le> drift_tol x \<and> drift_tol x \<le> 214749"
proof -
  have "(uint x + 19) div 20 \<le> 214749" using assms by presburger
  then show ?thesis
    by (simp add: drift_tol_def Let_def)
qed

lemma tick_since_sync_sec_le: "uint (tick_since_sync_sec w) \<le> 4294967"
proof -
  have "uint (millis w - last_drift_check_tick w) < 4294967296"
    using uint_lt2p [of "millis w - last_drift_check_tick w"] by simp
  then show ?thesis
    by (simp add: tick_since_sync_sec_def uint_div_distrib)
qed

text \<open>What the gate computes: the band around the current time, with the tolerance rounded down.\<close>

lemma check_timechange_safe_band:
  assumes "tstamp_valid cfg t"
    and "timechange_safety_enabled w"
    and "EXTERNAL_RTC_ENABLED cfg"
    and "timechange_tol (millis w - last_sync_tick w) \<le> uint (get_timestamp w)"
    and "uint (get_timestamp w) + timechange_tol (millis w - last_sync_tick w) < 2 ^ 32"
  shows "fst (check_timechange_safe cfg t w) \<longleftrightarrow>
           uint (get_timestamp w) - timechange_tol (millis w - last_sync_tick w) \<le> uint t
           \<and> uint t \<le> uint (get_timestamp w) + timechange_tol (millis w - last_sync_tick w)"
proof -
  define tol where "tol = timechange_tol (millis w - last_sync_tick w)"
  define cur where "cur = get_timestamp w"
  have r: "10 \<le> tol" "tol \<le> 214748"
    using timechange_tol_range [of "millis w - last_sync_tick w"] by (simp_all add: tol_def)
  have ut: "uint (word_of_int tol :: u32) = tol"
    using r by (intro uint_word_of_int_u32) simp_all
  have a4: "tol \<le> uint cur" and a5: "uint cur + tol < 4294967296"
    using assms(4,5) by (simp_all add: tol_def cur_def)
  have lo: "uint (cur - word_of_int tol) = uint cur - tol"
    using a4 by (simp add: uint_sub_if' ut)
  have hi: "uint (cur + word_of_int tol) = uint cur + tol"
    using a5 by (simp add: uint_plus_if' ut)
  have "fst (check_timechange_safe cfg t w) \<longleftrightarrow>
          \<not> (t < cur - word_of_int tol \<or> cur + word_of_int tol < t)"
    using assms(1-3) by (simp add: check_timechange_safe_def Let_def tol_def cur_def)
  also have "\<dots> \<longleftrightarrow> uint cur - tol \<le> uint t \<and> uint t \<le> uint cur + tol"
    by (auto simp: word_less_def lo hi)
  finally show ?thesis by (simp add: tol_def cur_def)
qed

text \<open>
  What the drift detector computes once at least as many seconds as the tolerance have
  elapsed on the tick counter: nothing wraps, and the result is the signed difference
  outside the band and 0 inside.
\<close>

lemma detect_drift_band:
  assumes "EXTERNAL_RTC_ENABLED cfg"
    and "last_drift_check_tick w \<noteq> 0"
    and "last_drift_check_tstamp w \<noteq> 0"
    and "drift_tol (tick_since_sync_sec w) \<le> uint (tick_since_sync_sec w)"
  shows "fst (detect_drift cfg env w) =
     (if uint (tstamp_since_sync (ext_rtc_epoch32 env (uptime_ms w)) w)
           < uint (tick_since_sync_sec w) - drift_tol (tick_since_sync_sec w)
         \<or> uint (tick_since_sync_sec w) + drift_tol (tick_since_sync_sec w)
           < uint (tstamp_since_sync (ext_rtc_epoch32 env (uptime_ms w)) w)
      then uint (tstamp_since_sync (ext_rtc_epoch32 env (uptime_ms w)) w)
             - uint (tick_since_sync_sec w)
      else 0)"
proof -
  define ticks where "ticks = tick_since_sync_sec w"
  define tstamps where "tstamps = tstamp_since_sync (ext_rtc_epoch32 env (uptime_ms w)) w"
  define tol where "tol = drift_tol ticks"
  have tk: "uint ticks \<le> 4294967" "0 \<le> uint ticks"
    using tick_since_sync_sec_le [of w] by (simp_all add: ticks_def)
  have r: "10 \<le> tol" "tol \<le> 214749"
    using drift_tol_range [OF tk(1)] by (simp_all add: tol_def)
  have le: "tol \<le> uint ticks" using assms(4) by (simp add: tol_def ticks_def)
  have ts: "uint tstamps \<le> 2147483648" "0 \<le> uint tstamps"
    using uint_abs_int32 by (simp_all add: tstamps_def tstamp_since_sync_def)
  have ut: "uint (word_of_int tol :: u32) = tol"
    using r by (intro uint_word_of_int_u32) simp_all
  have lo: "uint (ticks - word_of_int tol) = uint ticks - tol"
    using le by (simp add: uint_sub_if' ut)
  have hi: "uint (ticks + word_of_int tol) = uint ticks + tol"
    using tk r by (simp add: uint_plus_if' ut)
  have d: "sint (tstamps - ticks) = uint tstamps - uint ticks"
  proof (cases "uint ticks \<le> uint tstamps")
    case True
    then have "uint (tstamps - ticks) = uint tstamps - uint ticks"
      by (simp add: uint_sub_if')
    moreover have "uint tstamps - uint ticks < 2147483648"
      using ts(1) r(1) le by linarith
    ultimately show ?thesis by (simp add: sint_u32)
  next
    case False
    then have "uint (tstamps - ticks) = uint tstamps - uint ticks + 4294967296"
      by (simp add: uint_sub_if')
    moreover have "\<not> uint tstamps - uint ticks + 4294967296 < 2147483648"
      using ts(2) tk(1) by linarith
    ultimately show ?thesis by (simp add: sint_u32)
  qed
  have "fst (detect_drift cfg env w) =
          (if tstamps < ticks - word_of_int tol \<or> ticks + word_of_int tol < tstamps
           then sint (tstamps - ticks) else 0)"
    using assms(1-3)
    by (simp add: detect_drift_def get_external_rtc_timestamp_def Let_def
        ticks_def tstamps_def tol_def)
  then show ?thesis
    by (simp add: word_less_def lo hi d ticks_def [symmetric] tstamps_def [symmetric]
        tol_def [symmetric])
qed

subsection \<open>Single-precision arithmetic on small values\<close>

lemma float_shift_small: "n < 2 ^ 24 \<Longrightarrow> float_shift n = 0"
  by (subst float_shift.simps) simp

lemma round_half_even_1 [simp]: "round_half_even n (Suc 0) = n"
  by (simp add: round_half_even_def)

lemma float_of_u32_small: "unat x < 2 ^ 24 \<Longrightarrow> float_of_u32 x = unat x"
  by (simp add: float_of_u32_def float_shift_small)

lemma div_scale_2500: "div_scale 2500 = 22"
  by (simp add: div_scale.simps)

lemma offset_sec_2500: "offset_sec 2500 = 3"
  by (simp add: offset_sec_def float_of_u32_small div_scale_2500 round_half_even_def)

lemma sscanf_u_1700000000: "sscanf_u ''1700000000'' = Some 1700000000"
  by (simp add: sscanf_u_def strip_sign_def isspace_def isdigit_def)

subsection \<open>What \<open>sscanf\<close> makes of a body that is not ten digits\<close>

lemma digits_val_bound: "digits_val acc s < (acc + 1) * 10 ^ length s"
proof (induction s arbitrary: acc)
  case Nil
  then show ?case by simp
next
  case (Cons c cs)
  show ?case
  proof (cases "isdigit c")
    case True
    then have dv: "(of_char c :: nat) - 48 \<le> 9" unfolding isdigit_def by linarith
    have "digits_val (10 * acc + (of_char c - 48)) cs
            < (10 * acc + (of_char c - 48) + 1) * 10 ^ length cs"
      by (rule Cons.IH)
    also have "\<dots> \<le> (10 * acc + 10) * 10 ^ length cs"
      using dv by (intro mult_right_mono) simp_all
    finally show ?thesis using True by (simp add: algebra_simps)
  next
    case False
    have "acc < (acc + 1) * 1" by simp
    also have "\<dots> \<le> (acc + 1) * 10 ^ length (c # cs)"
      by (intro mult_left_mono) simp_all
    finally show ?thesis using False by simp
  qed
qed

lemma digits_val_nondigit:
  "\<not> list_all isdigit s \<Longrightarrow> digits_val acc s < (acc + 1) * 10 ^ (length s - 1)"
proof (induction s arbitrary: acc)
  case Nil
  then show ?case by simp
next
  case (Cons c cs)
  show ?case
  proof (cases "isdigit c")
    case True
    then have dv: "(of_char c :: nat) - 48 \<le> 9" unfolding isdigit_def by linarith
    from True Cons.prems have nd: "\<not> list_all isdigit cs" by simp
    then have ne: "cs \<noteq> []" by auto
    then have len: "length cs = Suc (length cs - 1)" by (cases cs) simp_all
    have "digits_val (10 * acc + (of_char c - 48)) cs
            < (10 * acc + (of_char c - 48) + 1) * 10 ^ (length cs - 1)"
      using nd by (rule Cons.IH)
    also have "\<dots> \<le> (10 * acc + 10) * 10 ^ (length cs - 1)"
      using dv by (intro mult_right_mono) simp_all
    also have "\<dots> = (acc + 1) * 10 ^ length cs"
      by (subst (2) len) (simp add: algebra_simps)
    finally show ?thesis using True by simp
  next
    case False
    have "acc < (acc + 1) * 1" by simp
    also have "\<dots> \<le> (acc + 1) * 10 ^ length cs"
      by (intro mult_left_mono) simp_all
    finally show ?thesis using False by simp
  qed
qed

lemma dropWhile_same_length: "length (dropWhile P s) = length s \<Longrightarrow> dropWhile P s = s"
proof (cases s)
  case Nil
  then show ?thesis by simp
next
  case (Cons c cs)
  assume l: "length (dropWhile P s) = length s"
  have "length (dropWhile P cs) \<le> length cs" by (rule length_dropWhile_le)
  then show ?thesis using l Cons by (auto split: if_splits)
qed

lemma strip_sign_length:
  "strip_sign s = (neg, ds) \<Longrightarrow> length ds \<le> length s \<and> (length ds = length s \<longrightarrow> ds = s)"
  by (auto simp: strip_sign_def split: list.splits if_splits)

lemma malformed_digits_small:
  assumes "length s \<le> 10"
    and "\<not> (length s = 10 \<and> list_all isdigit s)"
    and "strip_sign (dropWhile isspace s) = (neg, ds)"
  shows "digits_val 0 ds < 1000000000"
proof -
  have l1: "length (dropWhile isspace s) \<le> length s" by (rule length_dropWhile_le)
  have l2: "length ds \<le> length (dropWhile isspace s)"
    and e2: "length ds = length (dropWhile isspace s) \<Longrightarrow> ds = dropWhile isspace s"
    using strip_sign_length [OF assms(3)] by simp_all
  show ?thesis
  proof (cases "length ds \<le> 9")
    case True
    have "digits_val 0 ds < (0 + 1) * 10 ^ length ds" by (rule digits_val_bound)
    also have "\<dots> \<le> (0 + 1) * (10::nat) ^ 9"
      using True by (intro mult_left_mono power_increasing) simp_all
    finally show ?thesis by simp
  next
    case False
    then have len: "length ds = 10" "length (dropWhile isspace s) = 10" "length s = 10"
      using l1 l2 assms(1) by simp_all
    then have "ds = dropWhile isspace s" using e2 by simp
    moreover have "dropWhile isspace s = s"
      using len by (intro dropWhile_same_length) simp
    ultimately have "ds = s" by simp
    then have "\<not> list_all isdigit ds" using assms(2) len by simp
    then have "digits_val 0 ds < (0 + 1) * 10 ^ (length ds - 1)" by (rule digits_val_nondigit)
    then show ?thesis using len by simp
  qed
qed

lemma unat_neg_u32: "unat (- y :: u32) = (if unat y = 0 then 0 else 4294967296 - unat y)"
  using unat_sub_if_size [of 0 y] by (simp add: word_size)

lemma unat_of_nat_small: "n < 4294967296 \<Longrightarrow> unat (word_of_nat n :: u32) = n"
  by (simp add: unat_of_nat)

lemma sscanf_u_malformed:
  assumes "length s \<le> 10"
    and "\<not> (length s = 10 \<and> list_all isdigit s)"
  shows "unat (case sscanf_u s of None \<Rightarrow> 0 | Some v \<Rightarrow> v) < 1000000000
       \<or> 3294967296 < unat (case sscanf_u s of None \<Rightarrow> 0 | Some v \<Rightarrow> v)"
proof -
  obtain neg ds where st: "strip_sign (dropWhile isspace s) = (neg, ds)"
    by (cases "strip_sign (dropWhile isspace s)")
  define v where "v = digits_val 0 ds"
  have v: "v < 1000000000"
    unfolding v_def using assms st by (rule malformed_digits_small)
  then have u: "unat (word_of_nat v :: u32) = v"
    by (intro unat_of_nat_small) simp
  have "(case sscanf_u s of None \<Rightarrow> 0 | Some v \<Rightarrow> v)
          \<in> {0, word_of_nat v, - word_of_nat v}"
    using v by (auto simp: sscanf_u_def st Let_def v_def [symmetric] split: list.splits)
  then show ?thesis
    using v u by (auto simp: unat_neg_u32)
qed

subsection \<open>A bound on the latency offset\<close>

lemma round_half_even_le:
  assumes "0 < d"
  shows "2 * d * round_half_even m d \<le> 2 * m + d"
proof -
  define A where "A = d * (m div d)"
  define r where "r = m mod d"
  have m: "m = A + r" by (simp add: A_def r_def)
  have "2 * d * round_half_even m d =
          (if d < 2 * r \<or> (2 * r = d \<and> odd (m div d)) then 2 * A + 2 * d else 2 * A)"
    by (simp add: round_half_even_def Let_def A_def r_def algebra_simps)
  then show ?thesis
    using m by (auto split: if_splits)
qed

lemma round_half_even_le_succ: "round_half_even m d \<le> m div d + 1"
  by (simp add: round_half_even_def Let_def)

lemma float_shift_le_8: "n < 2 ^ 24 * 2 ^ j \<Longrightarrow> float_shift n \<le> j"
proof (induction j arbitrary: n)
  case 0
  then show ?case by (simp add: float_shift_small)
next
  case (Suc j)
  show ?case
  proof (cases "n < 2 ^ 24")
    case True
    then show ?thesis by (simp add: float_shift_small)
  next
    case False
    have "n < 2 ^ 24 * 2 ^ j * 2" using Suc.prems by (simp add: mult.assoc)
    then have "n div 2 < 2 ^ 24 * 2 ^ j" by (rule less_mult_imp_div_less)
    then have "float_shift (n div 2) \<le> j" by (rule Suc.IH)
    moreover have "float_shift n = Suc (float_shift (n div 2))"
      using False by (subst float_shift.simps) simp
    ultimately show ?thesis by simp
  qed
qed

lemma float_shift_significand: "n div 2 ^ float_shift n < 2 ^ 24"
proof (induction n rule: float_shift.induct)
  case (1 n)
  show ?case
  proof (cases "n < 2 ^ 24")
    case True
    then show ?thesis by (simp add: float_shift_small)
  next
    case False
    then have s: "float_shift n = Suc (float_shift (n div 2))"
      by (subst float_shift.simps) simp
    have "n div 2 div 2 ^ float_shift (n div 2) < 2 ^ 24"
      using False by (intro "1.IH") simp
    then show ?thesis by (simp add: s div_mult2_eq)
  qed
qed

lemma float_of_u32_le_max: "float_of_u32 x \<le> 4294967296"
proof -
  define n where "n = unat x"
  define k where "k = float_shift n"
  have "n < 2 ^ 24 * 2 ^ 8" using unsigned_less [of x, where ?'a = nat] by (simp add: n_def)
  then have "k \<le> 8" unfolding k_def by (rule float_shift_le_8)
  then have P: "(2::nat) ^ k \<le> 2 ^ 8" by (intro power_increasing) simp_all
  have "n div 2 ^ k < 2 ^ 24" unfolding k_def by (rule float_shift_significand)
  then have "round_half_even n (2 ^ k) \<le> 2 ^ 24"
    using round_half_even_le_succ [of n "2 ^ k"] by linarith
  then have "round_half_even n (2 ^ k) * 2 ^ k \<le> 2 ^ 24 * 2 ^ 8"
    using P by (rule mult_mono) simp_all
  then show ?thesis by (simp add: float_of_u32_def Let_def n_def k_def)
qed

lemma offset_sec_range: "0 \<le> offset_sec x \<and> offset_sec x \<le> 4294968"
proof -
  define a where "a = float_of_u32 x"
  define P where "P = (2::nat) ^ div_scale a"
  define q where "q = round_half_even (a * P) 1000"
  define X where "X = (2 * q + P) div (2 * P)"
  have e: "offset_sec x = int X"
    by (simp add: offset_sec_def Let_def a_def P_def q_def X_def)
  have P: "1 \<le> P" by (simp add: P_def)
  have a: "a \<le> 4294967296" unfolding a_def by (rule float_of_u32_le_max)
  have q: "2000 * q \<le> 2 * (a * P) + 1000"
    using round_half_even_le [of 1000 "a * P"] by (simp add: q_def)
  have "X * (2 * P) \<le> 2 * q + P"
    unfolding X_def by (rule div_times_less_eq_dividend)
  then have "2000 * (X * P) \<le> 2000 * q + 1000 * P" by simp
  also have "\<dots> \<le> 2 * (a * P) + 1000 + 1000 * P" using q by simp
  also have "\<dots> \<le> 2 * (a * P) + 2000 * P" using P by simp
  also have "\<dots> \<le> 2 * (4294967296 * P) + 2000 * P"
    using a by (intro add_mono mult_left_mono mult_right_mono) simp_all
  also have "\<dots> = (2000 * 4294968 + 592) * P" by (simp add: algebra_simps)
  finally have "(2000 * X) * P \<le> (2000 * 4294968 + 592) * P" by (simp add: algebra_simps)
  then have "2000 * X \<le> 2000 * 4294968 + 592" using P by simp
  then have "X \<le> 4294968" by simp
  then show ?thesis by (simp add: e)
qed

subsection \<open>The candidate of a malformed body is implausible\<close>

lemma malformed_candidate_rejected:
  assumes "length resp \<le> 10"
    and "\<not> (length resp = 10 \<and> list_all isdigit resp)"
    and "999999999 \<le> FAIL_CHECK_TIMESTAMP_START cfg"
    and "FAIL_CHECK_TIMESTAMP_END cfg \<le> 3290672329"
  shows "\<not> tstamp_valid cfg (http_candidate start_time_ms end_time_ms resp)"
proof -
  define p where "p = (case sscanf_u resp of None \<Rightarrow> (0::u32) | Some v \<Rightarrow> v)"
  define X where "X = nat (offset_sec (end_time_ms - start_time_ms))"
  have X: "X \<le> 4294968" "offset_sec (end_time_ms - start_time_ms) = int X"
    using offset_sec_range [of "end_time_ms - start_time_ms"] unfolding X_def by linarith+
  have p: "unat p < 1000000000 \<or> 3294967296 < unat p"
    unfolding p_def using assms(1,2) by (rule sscanf_u_malformed)
  have uX: "unat (word_of_nat X :: u32) = X"
    using X(1) by (intro unat_of_nat_small) simp
  have t: "http_candidate start_time_ms end_time_ms resp = p - word_of_nat X"
    by (simp add: http_candidate_def p_def X(2))
  have ut: "unat (p - word_of_nat X) = (if X \<le> unat p then unat p - X else unat p + 4294967296 - X)"
    using unat_sub_if_size [of p "word_of_nat X"] by (simp add: uX word_size)
  have s: "999999999 \<le> unat (FAIL_CHECK_TIMESTAMP_START cfg)"
    using assms(3) by (simp add: word_le_nat_alt)
  have e: "unat (FAIL_CHECK_TIMESTAMP_END cfg) \<le> 3290672329"
    using assms(4) by (simp add: word_le_nat_alt)
  show ?thesis
    unfolding tstamp_valid_def t word_less_nat_alt ut
    using p X(1) s e by (auto split: if_splits)
qed

lemma nine_digits_run:
  "http_get short_body_env (uptime_ms gate_world) = (RET_OK, ''170000000'', 2500)"
  "length (take 19 ''170000000'') \<noteq> 10"
  by (simp_all add: short_body_env_def failing_env_def dead_env_def)

lemma ten_letters_run:
  "http_get failing_env (uptime_ms gate_world) = (RET_OK, ''abcdefghij'', 2500)"
  "\<not> list_all isdigit (take 19 ''abcdefghij'')"
  by (simp_all add: failing_env_def dead_env_def isdigit_def)

lemma example_config_window:
  "url_explode_ok example_config"
  "999999999 \<le> FAIL_CHECK_TIMESTAMP_START example_config"
  "FAIL_CHECK_TIMESTAMP_END example_config \<le> 3290672329"
  by (simp_all add: example_config_def)

subsection \<open>A source that fails leaves the clock alone; one that succeeds has committed once\<close>

lemma RetResult_cases: "r = RET_OK \<or> r = RET_ERROR"
  by (cases r) simp_all

lemma sync_time_from_gsm_rtc_source:
  "(fst (sync_time_from_gsm_rtc cfg env w) = RET_ERROR \<longrightarrow>
      wall_offset_ms (snd (sync_time_from_gsm_rtc cfg env w)) = wall_offset_ms w
      \<and> commits (snd (sync_time_from_gsm_rtc cfg env w)) = commits w)
   \<and> (fst (sync_time_from_gsm_rtc cfg env w) = RET_OK \<longrightarrow>
      commits (snd (sync_time_from_gsm_rtc cfg env w)) = commits w + 1)"
proof -
  obtain r tm w1 where l: "get_time_loop cfg env (GSM_TRIES cfg) (RET_ERROR, 0) w = ((r, tm), w1)"
    by (cases "get_time_loop cfg env (GSM_TRIES cfg) (RET_ERROR, 0) w") auto
  have f1: "wall_offset_ms w1 = wall_offset_ms w" "commits w1 = commits w"
    using get_time_loop_frame [of cfg env "GSM_TRIES cfg" "(RET_ERROR, 0)" w] l by simp_all
  obtain b w2 where c: "check_timechange_safe cfg tm w1 = (b, w2)"
    by (cases "check_timechange_safe cfg tm w1")
  have f2: "wall_offset_ms w2 = wall_offset_ms w" "commits w2 = commits w"
    using check_timechange_safe_frame(1,2) [of cfg tm w1] c f1 by simp_all
  show ?thesis
  proof (cases "r = RET_OK \<and> b")
    case True
    then have e: "sync_time_from_gsm_rtc cfg env w = set_system_time env tm w2"
      using l c by (simp add: sync_time_from_gsm_rtc_def)
    show ?thesis
      using set_system_time_error [of env tm w2] set_system_time_ok [of env tm w2] f2
      by (auto simp: e)
  next
    case False
    then have "sync_time_from_gsm_rtc cfg env w = (RET_ERROR, if r = RET_OK then w2 else w1)"
      using l c RetResult_cases [of r] by (auto simp: sync_time_from_gsm_rtc_def)
    then show ?thesis using f1 f2 by simp
  qed
qed

lemma sync_time_from_ext_rtc_source:
  "(fst (sync_time_from_ext_rtc cfg env w) = RET_ERROR \<longrightarrow>
      wall_offset_ms (snd (sync_time_from_ext_rtc cfg env w)) = wall_offset_ms w
      \<and> commits (snd (sync_time_from_ext_rtc cfg env w)) = commits w)
   \<and> (fst (sync_time_from_ext_rtc cfg env w) = RET_OK \<longrightarrow>
      commits (snd (sync_time_from_ext_rtc cfg env w)) = commits w + 1)"
proof -
  define t where "t = ext_rtc_epoch32 env (uptime_ms w)"
  define w1 where "w1 = emit EvExtRtcRead w"
  obtain b w2 where c: "check_timechange_safe cfg t w1 = (b, w2)"
    by (cases "check_timechange_safe cfg t w1")
  obtain b' w3 where s: "settimeofday env t w2 = (b', w3)"
    by (cases "settimeofday env t w2")
  have f1: "wall_offset_ms w1 = wall_offset_ms w" "commits w1 = commits w"
    by (simp_all add: w1_def)
  have f2: "wall_offset_ms w2 = wall_offset_ms w" "commits w2 = commits w"
    using check_timechange_safe_frame(1,2) [of cfg t w1] c f1 by simp_all
  have f3: "\<not> b' \<Longrightarrow> w3 = w2" "b' \<Longrightarrow> commits w3 = commits w + 1"
    using settimeofday_fail [of env t w2] settimeofday_ok_commits [of env t w2] s f2 by simp_all
  have e: "sync_time_from_ext_rtc cfg env w =
      (if \<not> EXTERNAL_RTC_ENABLED cfg then (RET_ERROR, w)
       else if \<not> b then (RET_ERROR, w2)
       else if \<not> b' then (RET_ERROR, w3)
       else (RET_OK, emit EvExtRtcRead w3))"
    using c s
    by (simp add: sync_time_from_ext_rtc_def get_external_rtc_timestamp_def print_time_def
        t_def [symmetric] w1_def [symmetric])
  show ?thesis
    using f1 f2 f3 by (auto simp: e)
qed

lemma sync_time_from_http_bad_url:
  "\<not> url_explode_ok cfg \<Longrightarrow> sync_time_from_http cfg env w = (RET_ERROR, w)"
  by (simp add: sync_time_from_http_def)

lemma sync_time_from_http_unfold:
  assumes "http_get env (uptime_ms w) = (r, body, d)"
    and "w1 = elapse d (emit EvHttpGet w)"
    and "resp = take 19 body"
    and "t = http_candidate (millis w) (millis w1) resp"
    and "check_timechange_safe cfg t w1 = (b, w2)"
  shows "sync_time_from_http cfg env w =
     (if \<not> url_explode_ok cfg then (RET_ERROR, w)
      else if r = RET_ERROR then (RET_ERROR, w1)
      else if length resp \<noteq> 10 then (RET_ERROR, w1)
      else if \<not> b then (RET_ERROR, w2)
      else set_system_time env t w2)"
proof -
  have "sync_time_from_http cfg env w =
     (if \<not> url_explode_ok cfg then (RET_ERROR, w)
      else if r = RET_ERROR then (RET_ERROR, w1)
      else if length resp \<noteq> 10 then (RET_ERROR, w1)
      else (case check_timechange_safe cfg t w1 of
              (False, w2) \<Rightarrow> (RET_ERROR, w2)
            | (True, w2) \<Rightarrow> set_system_time env t w2))"
    unfolding sync_time_from_http_def Let_def assms(1) prod.case
      assms(2) [symmetric] assms(3) [symmetric] assms(4) [symmetric]
    by (rule refl)
  then show ?thesis
    by (cases b) (simp_all add: assms(5))
qed

lemma sync_time_from_http_source:
  "(fst (sync_time_from_http cfg env w) = RET_ERROR \<longrightarrow>
      wall_offset_ms (snd (sync_time_from_http cfg env w)) = wall_offset_ms w
      \<and> commits (snd (sync_time_from_http cfg env w)) = commits w)
   \<and> (fst (sync_time_from_http cfg env w) = RET_OK \<longrightarrow>
      commits (snd (sync_time_from_http cfg env w)) = commits w + 1)"
proof -
  obtain r body d where h: "http_get env (uptime_ms w) = (r, body, d)"
    by (cases "http_get env (uptime_ms w)") auto
  define w1 where "w1 = elapse d (emit EvHttpGet w)"
  define resp where "resp = take 19 body"
  define t where "t = http_candidate (millis w) (millis w1) resp"
  obtain b w2 where c: "check_timechange_safe cfg t w1 = (b, w2)"
    by (cases "check_timechange_safe cfg t w1")
  note e = sync_time_from_http_unfold [OF h w1_def resp_def t_def c]
  have f1: "wall_offset_ms w1 = wall_offset_ms w" "commits w1 = commits w"
    by (simp_all add: w1_def)
  have f2: "wall_offset_ms w2 = wall_offset_ms w" "commits w2 = commits w"
    using check_timechange_safe_frame(1,2) [of cfg t w1] c f1 by simp_all
  show ?thesis
    using set_system_time_error [of env t w2] set_system_time_ok [of env t w2] f1 f2
    by (auto simp: e)
qed

lemma sync_sources_result:
  "(fst (fst (sync_sources cfg env w)) = RET_ERROR \<longrightarrow>
      wall_offset_ms (snd (sync_sources cfg env w)) = wall_offset_ms w
      \<and> commits (snd (sync_sources cfg env w)) = commits w)
   \<and> (fst (fst (sync_sources cfg env w)) = RET_OK \<longrightarrow>
      commits (snd (sync_sources cfg env w)) = commits w + 1)"
proof -
  obtain r0 w0 where c0: "(if is_gprs_connected env (uptime_ms w) then (RET_OK, w)
            else GSM_connect_persist env w) = (r0, w0)"
    by (cases "(if is_gprs_connected env (uptime_ms w) then (RET_OK, w)
            else GSM_connect_persist env w)")
  have "w0 = w \<or> w0 = snd (GSM_connect_persist env w)"
    using c0 by (auto split: if_splits)
  then have f0: "wall_offset_ms w0 = wall_offset_ms w" "commits w0 = commits w"
    by auto
  obtain r1 w1 where c1: "sync_time_from_http cfg env w0 = (r1, w1)"
    by (cases "sync_time_from_http cfg env w0")
  obtain r2 w2 where c2: "sync_gsm_rtc_from_ntp cfg env w1 = (r2, w2)"
    by (cases "sync_gsm_rtc_from_ntp cfg env w1")
  obtain r3 w3 where c3: "(if r2 = RET_OK then sync_time_from_gsm_rtc cfg env w2
                           else (RET_ERROR, w2)) = (r3, w3)"
    by (cases "(if r2 = RET_OK then sync_time_from_gsm_rtc cfg env w2 else (RET_ERROR, w2))")
  obtain r4 w4 where c4: "(if EXTERNAL_RTC_ENABLED cfg then sync_time_from_ext_rtc cfg env w3
                           else (RET_ERROR, w3)) = (r4, w4)"
    by (cases "(if EXTERNAL_RTC_ENABLED cfg then sync_time_from_ext_rtc cfg env w3
                else (RET_ERROR, w3))")
  obtain r5 w5 where c5: "sync_time_from_gsm_rtc cfg env w4 = (r5, w5)"
    by (cases "sync_time_from_gsm_rtc cfg env w4")
  obtain r6 w6 where c6: "(if EXTERNAL_RTC_ENABLED cfg then sync_time_from_ext_rtc cfg env w0
                           else (RET_ERROR, w0)) = (r6, w6)"
    by (cases "(if EXTERNAL_RTC_ENABLED cfg then sync_time_from_ext_rtc cfg env w0
                else (RET_ERROR, w0))")
  have s1: "(r1 = RET_ERROR \<longrightarrow> wall_offset_ms w1 = wall_offset_ms w \<and> commits w1 = commits w)
      \<and> (r1 = RET_OK \<longrightarrow> commits w1 = commits w + 1)"
    using sync_time_from_http_source [of cfg env w0] c1 f0 by simp
  have "w2 = snd (sync_gsm_rtc_from_ntp cfg env w1)"
    using c2 by simp
  then have s2: "wall_offset_ms w2 = wall_offset_ms w1 \<and> commits w2 = commits w1"
    by simp
  have s3: "(r3 = RET_ERROR \<longrightarrow> wall_offset_ms w3 = wall_offset_ms w2 \<and> commits w3 = commits w2)
      \<and> (r3 = RET_OK \<longrightarrow> commits w3 = commits w2 + 1)"
    using sync_time_from_gsm_rtc_source [of cfg env w2] c3 by (auto split: if_splits)
  have s4: "(r4 = RET_ERROR \<longrightarrow> wall_offset_ms w4 = wall_offset_ms w3 \<and> commits w4 = commits w3)
      \<and> (r4 = RET_OK \<longrightarrow> commits w4 = commits w3 + 1)"
    using sync_time_from_ext_rtc_source [of cfg env w3] c4 by (auto split: if_splits)
  have s5: "(r5 = RET_ERROR \<longrightarrow> wall_offset_ms w5 = wall_offset_ms w4 \<and> commits w5 = commits w4)
      \<and> (r5 = RET_OK \<longrightarrow> commits w5 = commits w4 + 1)"
    using sync_time_from_gsm_rtc_source [of cfg env w4] c5 by simp
  have s6: "(r6 = RET_ERROR \<longrightarrow> wall_offset_ms w6 = wall_offset_ms w \<and> commits w6 = commits w)
      \<and> (r6 = RET_OK \<longrightarrow> commits w6 = commits w + 1)"
    using sync_time_from_ext_rtc_source [of cfg env w0] c6 f0 by (auto split: if_splits)
  have e: "sync_sources cfg env w =
      (if r0 = RET_OK then
         (if r1 = RET_OK then ((RET_OK, TIME_SOURCE_HTTP, True), w1)
          else if r3 = RET_OK then ((RET_OK, TIME_SOURCE_NTP, True), w3)
          else if r4 = RET_OK then ((RET_OK, TIME_SOURCE_OTHER, False), w4)
          else if r5 = RET_OK then ((RET_OK, TIME_SOURCE_GSM, True), w5)
          else ((RET_ERROR, TIME_SOURCE_OTHER, True), w5))
       else if r6 = RET_OK then ((RET_OK, TIME_SOURCE_OTHER, False), w6)
       else ((RET_ERROR, TIME_SOURCE_OTHER, True), w6))"
    unfolding sync_sources_def c0
    using c1 c2 c3 c4 c5 c6
    by (cases r0; cases r1; cases r3; cases r4; cases r5; cases r6) simp_all
  show ?thesis
    unfolding e
    using s1 s2 s3 s4 s5 s6 RetResult_cases [of r1] RetResult_cases [of r3]
      RetResult_cases [of r4] RetResult_cases [of r5] RetResult_cases [of r6]
    by (cases r0; cases r1; cases r3; cases r4; cases r5; cases r6) simp_all
qed


lemma sync_unfold:
  assumes "w1 = enable_timechange_safety enable_safety
                  (w\<lparr>timechange_safety_enabled := enable_safety\<rparr>)"
    and "sync_sources cfg env w1 = ((ret, time_source, update_ext_rtc), w2)"
    and "w3 = (if EXTERNAL_RTC_ENABLED cfg \<and> update_ext_rtc \<and> ret = RET_OK
               then snd (set_external_rtc_time cfg env (get_timestamp w2) w2)
               else w2)"
    and "w4 = emit (EvLogRtcSync (get_timestamp w1) time_source) w3"
  shows "sync cfg env enable_safety w =
           (ret, enable_timechange_safety True
                   (if ret = RET_OK then reset_drift_check (w4\<lparr>last_sync_tick := millis w4\<rparr>)
                    else w4\<lparr>last_sync_tick := millis w4\<rparr>))"
  unfolding sync_def Let_def assms(1) [symmetric] assms(2) prod.case
    assms(3) [symmetric] assms(4) [symmetric]
  by (rule refl)

lemma set_external_rtc_time_frame [simp]:
  "wall_offset_ms (snd (set_external_rtc_time cfg env t w)) = wall_offset_ms w"
  "commits (snd (set_external_rtc_time cfg env t w)) = commits w"
  "uptime_ms (snd (set_external_rtc_time cfg env t w)) = uptime_ms w"
  by (simp_all add: set_external_rtc_time_def Let_def)

subsection \<open>The orchestrator fails exactly when every source of the chain fails\<close>

lemma sync_sources_unfold:
  assumes "network_stage env w = (r0, w0)"
    and "sync_time_from_http cfg env w0 = (r1, w1)"
    and "ntp_source cfg env w1 = (r3, w3)"
    and "ext_rtc_source cfg env w3 = (r4, w4)"
    and "sync_time_from_gsm_rtc cfg env w4 = (r5, w5)"
    and "ext_rtc_source cfg env w0 = (r6, w6)"
  shows "sync_sources cfg env w =
      (if r0 = RET_OK then
         (if r1 = RET_OK then ((RET_OK, TIME_SOURCE_HTTP, True), w1)
          else if r3 = RET_OK then ((RET_OK, TIME_SOURCE_NTP, True), w3)
          else if r4 = RET_OK then ((RET_OK, TIME_SOURCE_OTHER, False), w4)
          else if r5 = RET_OK then ((RET_OK, TIME_SOURCE_GSM, True), w5)
          else ((RET_ERROR, TIME_SOURCE_OTHER, True), w5))
       else if r6 = RET_OK then ((RET_OK, TIME_SOURCE_OTHER, False), w6)
       else ((RET_ERROR, TIME_SOURCE_OTHER, True), w6))"
proof -
  obtain r2 w2 where c2: "sync_gsm_rtc_from_ntp cfg env w1 = (r2, w2)"
    by (cases "sync_gsm_rtc_from_ntp cfg env w1")
  have c0: "(if is_gprs_connected env (uptime_ms w) then (RET_OK, w)
             else GSM_connect_persist env w) = (r0, w0)"
    using assms(1) by (simp add: network_stage_def)
  have c3: "(if r2 = RET_OK then sync_time_from_gsm_rtc cfg env w2 else (RET_ERROR, w2)) = (r3, w3)"
    using assms(3) by (simp add: ntp_source_def c2)
  have c4: "(if EXTERNAL_RTC_ENABLED cfg then sync_time_from_ext_rtc cfg env w3
             else (RET_ERROR, w3)) = (r4, w4)"
    using assms(4) by (simp add: ext_rtc_source_def)
  have c6: "(if EXTERNAL_RTC_ENABLED cfg then sync_time_from_ext_rtc cfg env w0
             else (RET_ERROR, w0)) = (r6, w6)"
    using assms(6) by (simp add: ext_rtc_source_def)
  show ?thesis
    unfolding sync_sources_def c0
    using assms(2) c2 c3 c4 assms(5) c6
    by (cases r0; cases r1; cases r3; cases r4; cases r5; cases r6) simp_all
qed

lemma sync_sources_fails_iff:
  "fst (fst (sync_sources cfg env w)) = RET_ERROR \<longleftrightarrow>
     (case network_stage env w of (network, w0) \<Rightarrow> all_fail (fallback_chain cfg env network) w0)"
proof -
  obtain r0 w0 where c0: "network_stage env w = (r0, w0)"
    by (cases "network_stage env w")
  obtain r1 w1 where c1: "sync_time_from_http cfg env w0 = (r1, w1)"
    by (cases "sync_time_from_http cfg env w0")
  obtain r3 w3 where c3: "ntp_source cfg env w1 = (r3, w3)"
    by (cases "ntp_source cfg env w1")
  obtain r4 w4 where c4: "ext_rtc_source cfg env w3 = (r4, w4)"
    by (cases "ext_rtc_source cfg env w3")
  obtain r5 w5 where c5: "sync_time_from_gsm_rtc cfg env w4 = (r5, w5)"
    by (cases "sync_time_from_gsm_rtc cfg env w4")
  obtain r6 w6 where c6: "ext_rtc_source cfg env w0 = (r6, w6)"
    by (cases "ext_rtc_source cfg env w0")
  note e = sync_sources_unfold [OF c0 c1 c3 c4 c5 c6]
  show ?thesis
    unfolding e c0
    using c1 c3 c4 c5 c6
    by (cases r0; cases r1; cases r3; cases r4; cases r5; cases r6)
       (simp_all add: fallback_chain_def)
qed

lemma sync_fails_iff_no_commit:
  "(fst (sync cfg env enable_safety w) = RET_ERROR
      \<longleftrightarrow> commits (snd (sync cfg env enable_safety w)) = commits w)
   \<and> (fst (sync cfg env enable_safety w) = RET_ERROR \<longrightarrow>
        wall_offset_ms (snd (sync cfg env enable_safety w)) = wall_offset_ms w
        \<and> last_sync_tick (snd (sync cfg env enable_safety w))
            = millis (snd (sync cfg env enable_safety w)))"
proof -
  define w1 where "w1 = enable_timechange_safety enable_safety
                  (w\<lparr>timechange_safety_enabled := enable_safety\<rparr>)"
  obtain ret ts upd w2 where c: "sync_sources cfg env w1 = ((ret, ts, upd), w2)"
    by (cases "sync_sources cfg env w1") auto
  define w3 where "w3 = (if EXTERNAL_RTC_ENABLED cfg \<and> upd \<and> ret = RET_OK
               then snd (set_external_rtc_time cfg env (get_timestamp w2) w2)
               else w2)"
  define w4 where "w4 = emit (EvLogRtcSync (get_timestamp w1) ts) w3"
  note e = sync_unfold [OF w1_def c w3_def w4_def]
  have f1: "wall_offset_ms w1 = wall_offset_ms w" "commits w1 = commits w"
    by (simp_all add: w1_def enable_timechange_safety_def)
  have r: "(ret = RET_ERROR \<longrightarrow> wall_offset_ms w2 = wall_offset_ms w \<and> commits w2 = commits w)
      \<and> (ret = RET_OK \<longrightarrow> commits w2 = commits w + 1)"
    using sync_sources_result [of cfg env w1] c f1 by simp
  have f4: "wall_offset_ms w4 = wall_offset_ms w2" "commits w4 = commits w2"
    by (simp_all add: w4_def w3_def)
  show ?thesis
  proof (cases ret)
    case RET_OK
    then show ?thesis
      using r f4 by (simp add: e enable_timechange_safety_def reset_drift_check_def)
  next
    case RET_ERROR
    then show ?thesis
      using r f4 by (simp add: e enable_timechange_safety_def millis_def)
  qed
qed

subsection \<open>Runs of the orchestrator and of the drift detector\<close>

text \<open>
  A successful sync over HTTP sets the clock to the compensated value, writes the
  external RTC (in seconds since 2000), logs the source, and moves the drift checkpoint.
  Every source failing leaves nine events and no commit.  Without a network only the
  external RTC is read.  The drift detector reports 15 seconds when 135 seconds have
  passed on the external RTC during 120 seconds of ticks, and nothing when the tick of
  the checkpoint is 0.
\<close>

lemma sscanf_u_1700000005: "sscanf_u ''1700000005'' = Some 1700000005"
  by (simp add: sscanf_u_def strip_sign_def isspace_def isdigit_def)

lemma http_sync_run:
  "fst (sync example_config http_env True gate_world) = RET_OK"
  "new_events gate_world (snd (sync example_config http_env True gate_world)) =
     [EvHttpGet, EvSetTimeOfDay 1700000002, EvExtRtcWrite 753315202,
      EvLogRtcSync 1700000000 TIME_SOURCE_HTTP]"
  "get_timestamp (snd (sync example_config http_env True gate_world)) = 1700000002"
  "last_sync_tick (snd (sync example_config http_env True gate_world)) = 203500"
  "last_drift_check_tick (snd (sync example_config http_env True gate_world)) = 203500"
  "last_drift_check_tstamp (snd (sync example_config http_env True gate_world)) = 1700000002"
  by (simp_all add: sync_def sync_sources_def sync_time_from_http_def http_candidate_def
      sscanf_u_1700000005 offset_sec_2500 check_timechange_safe_def tstamp_valid_def
      timechange_tol_def set_system_time_def settimeofday_def set_external_rtc_time_def
      reset_drift_check_def enable_timechange_safety_def new_events_def millis_def
      get_timestamp_def example_config_def http_env_def dead_env_def gate_world_def
      emit_def elapse_def)

lemma late_drift_run:
  "fst (detect_drift example_config late_drift_env late_drift_world) = 15"
  "fst (detect_drift example_config late_drift_env
          (late_drift_world\<lparr>last_drift_check_tick := 0\<rparr>)) = 0"
  by (simp_all add: detect_drift_def get_external_rtc_timestamp_def tick_since_sync_sec_def
      tstamp_since_sync_def drift_tol_def abs_int32_def millis_def emit_def
      late_drift_world_def drift_world_def late_drift_env_def dead_env_def example_config_def)


lemma sscanf_u_letters: "sscanf_u ''abcdefghij'' = None"
  by (simp add: sscanf_u_def strip_sign_def isspace_def isdigit_def)

lemma failing_sync_run:
  "fst (sync example_config failing_env True gate_world) = RET_ERROR"
  "last_sync_tick (snd (sync example_config failing_env True gate_world)) = 210500"
  "new_events gate_world (snd (sync example_config failing_env True gate_world)) =
     [EvHttpGet, EvUpdateNtpTime, EvDelay 1000, EvUpdateNtpTime, EvExtRtcRead,
      EvGsmGetTime, EvDelay 1000, EvGsmGetTime, EvLogRtcSync 1700000000 TIME_SOURCE_OTHER]"
  by (simp_all add: sync_def sync_sources_def sync_time_from_http_def http_candidate_def
      sscanf_u_letters offset_sec_2500 check_timechange_safe_def tstamp_valid_def
      sync_gsm_rtc_from_ntp_def GSM_update_ntp_time_def sync_time_from_ext_rtc_def
      get_external_rtc_timestamp_def sync_time_from_gsm_rtc_def GSM_get_time_def
      enable_timechange_safety_def delay_def new_events_def millis_def get_timestamp_def
      example_config_def failing_env_def dead_env_def gate_world_def numeral_3_eq_3
      emit_def elapse_def)

lemma offline_sync_run:
  "fst (sync example_config offline_env True gate_world) = RET_OK"
  "new_events gate_world (snd (sync example_config offline_env True gate_world)) =
     [EvConnectPersist, EvExtRtcRead, EvSetTimeOfDay 1700000030, EvExtRtcRead,
      EvLogRtcSync 1700000000 TIME_SOURCE_OTHER]"
  by (simp_all add: sync_def sync_sources_def GSM_connect_persist_def
      check_timechange_safe_def tstamp_valid_def timechange_tol_def
      sync_time_from_ext_rtc_def settimeofday_def print_time_def
      get_external_rtc_timestamp_def reset_drift_check_def
      enable_timechange_safety_def new_events_def millis_def get_timestamp_def
      example_config_def offline_env_def dead_env_def gate_world_def
      emit_def elapse_def)

lemma failing_env_every_source_fails:
  "every_source_fails example_config failing_env True gate_world"
  by (simp add: every_source_fails_def sync_entry_def network_stage_def fallback_chain_def
      ntp_source_def ext_rtc_source_def
      sync_time_from_http_def http_candidate_def
      sscanf_u_letters offset_sec_2500 check_timechange_safe_def tstamp_valid_def
      sync_gsm_rtc_from_ntp_def GSM_update_ntp_time_def sync_time_from_ext_rtc_def
      get_external_rtc_timestamp_def sync_time_from_gsm_rtc_def GSM_get_time_def
      enable_timechange_safety_def delay_def millis_def get_timestamp_def
      example_config_def failing_env_def dead_env_def gate_world_def numeral_3_eq_3
      emit_def elapse_def)

lemma dead_sync_run:
  "fst (sync example_config dead_env True gate_world) = RET_ERROR"
  "new_events gate_world (snd (sync example_config dead_env True gate_world)) =
     [EvConnectPersist, EvExtRtcRead, EvLogRtcSync 1700000000 TIME_SOURCE_OTHER]"
  by (simp_all add: sync_def sync_sources_def GSM_connect_persist_def
      check_timechange_safe_def tstamp_valid_def timechange_tol_def
      sync_time_from_ext_rtc_def settimeofday_def print_time_def
      get_external_rtc_timestamp_def reset_drift_check_def
      enable_timechange_safety_def new_events_def millis_def get_timestamp_def
      example_config_def dead_env_def gate_world_def
      emit_def elapse_def)

lemma offline_conditions:
  "\<not> is_gprs_connected offline_env (uptime_ms gate_world)"
  "fst (connect_persist offline_env (uptime_ms gate_world)) \<noteq> RET_OK"
  "\<not> is_gprs_connected dead_env (uptime_ms gate_world)"
  "fst (connect_persist dead_env (uptime_ms gate_world)) \<noteq> RET_OK"
  "EXTERNAL_RTC_ENABLED example_config"
  by (simp_all add: offline_env_def dead_env_def example_config_def)

section \<open>The safety gate\<close>

text \<open>
  Claim C7.  Whatever the configuration and the state (safety enabled or not, external
  RTC enabled or not), a timestamp that \<open>check_timechange_safe\<close> accepts lies strictly
  between \<open>FAIL_CHECK_TIMESTAMP_START\<close> and \<open>FAIL_CHECK_TIMESTAMP_END\<close>.
\<close>

theorem gate_accepts_within_window:
  "fst (check_timechange_safe cfg t w) \<Longrightarrow>
     FAIL_CHECK_TIMESTAMP_START cfg < t \<and> t < FAIL_CHECK_TIMESTAMP_END cfg"
  by (auto simp: check_timechange_safe_def tstamp_valid_def Let_def split: if_splits)

theorem gate_accepts_within_window_witness:
  "fst (check_timechange_safe example_config 1700000005 gate_world)
   \<and> FAIL_CHECK_TIMESTAMP_START example_config < 1700000005
   \<and> 1700000005 < FAIL_CHECK_TIMESTAMP_END example_config"
proof -
  have acc: "fst (check_timechange_safe example_config 1700000005 gate_world)"
    by (simp add: check_timechange_safe_def tstamp_valid_def example_config_def gate_world_def
        get_timestamp_def millis_def timechange_tol_def)
  show ?thesis
    using acc gate_accepts_within_window [OF acc] by simp
qed

text \<open>
  Claim C1 states the tolerance of the gate as \<open>max(10, ceil(5% of the elapsed seconds))\<close>
  and acceptance of every plausible \<open>t\<close> with \<open>cur - tol \<le> t \<le> cur + tol\<close>.  In
  \<open>check_timechange_safe\<close> the ceiling is applied before the multiplication by \<open>0.05\<close>,
  so the 5% term is rounded down: 201 seconds after the last sync the tolerance is 10,
  not 11, and the plausible timestamp \<open>cur + 11\<close> is rejected with safety and external
  RTC enabled.
\<close>

theorem gate_tolerance_truncated:
  "timechange_safety_enabled gate_world
   \<and> EXTERNAL_RTC_ENABLED example_config
   \<and> tstamp_valid example_config 1700000011
   \<and> get_timestamp gate_world = 1700000000
   \<and> millis gate_world - last_sync_tick gate_world = 201000
   \<and> timechange_tol 201000 = 10
   \<and> \<not> fst (check_timechange_safe example_config 1700000011 gate_world)"
  by (simp add: check_timechange_safe_def tstamp_valid_def example_config_def gate_world_def
      get_timestamp_def millis_def timechange_tol_def)

section \<open>The drift detector\<close>

text \<open>
  Claim C2 states that \<open>detect_drift\<close> returns 0 whenever the seconds elapsed on the
  external RTC lie within the tolerance of the seconds elapsed on the tick counter.
  Five seconds after the checkpoint, with six seconds elapsed on the external RTC and a
  tolerance of 10, \<open>detect_drift\<close> returns 1.
\<close>

theorem detect_drift_inside_band_reports_drift:
  "tick_since_sync_sec drift_world = 5
   \<and> tstamp_since_sync (ext_rtc_epoch32 drift_env (uptime_ms drift_world)) drift_world = 6
   \<and> drift_tol (tick_since_sync_sec drift_world) = 10
   \<and> fst (detect_drift example_config drift_env drift_world) = 1"
  by (simp add: detect_drift_def get_external_rtc_timestamp_def drift_world_values
      drift_env_def dead_env_def example_config_def)
     (simp add: drift_world_def)

text \<open>
  Claim C9.  With the external RTC enabled and a checkpoint taken, if the seconds elapsed
  on the tick counter are fewer than the tolerance, then the unsigned difference
  \<open>tick_since_sync_sec - tol\<close> wraps around modulo \<open>2^32\<close>, the first comparison of the
  out-of-band test holds, and \<open>detect_drift\<close> returns
  \<open>tstamp_since_sync - tick_since_sync_sec\<close>, which is non-zero exactly when the two
  elapsed values differ.
\<close>

theorem detect_drift_wraps_below_tolerance:
  assumes "EXTERNAL_RTC_ENABLED cfg"
    and "last_drift_check_tick w \<noteq> 0"
    and "last_drift_check_tstamp w \<noteq> 0"
    and "uint (tick_since_sync_sec w) < drift_tol (tick_since_sync_sec w)"
  shows "uint (tick_since_sync_sec w - word_of_int (drift_tol (tick_since_sync_sec w)))
           = uint (tick_since_sync_sec w) - drift_tol (tick_since_sync_sec w) + 2 ^ 32
       \<and> tstamp_since_sync (ext_rtc_epoch32 env (uptime_ms w)) w
           < tick_since_sync_sec w - word_of_int (drift_tol (tick_since_sync_sec w))
       \<and> fst (detect_drift cfg env w)
           = sint (tstamp_since_sync (ext_rtc_epoch32 env (uptime_ms w)) w - tick_since_sync_sec w)
       \<and> (fst (detect_drift cfg env w) \<noteq> 0
            \<longleftrightarrow> tstamp_since_sync (ext_rtc_epoch32 env (uptime_ms w)) w \<noteq> tick_since_sync_sec w)"
proof -
  let ?ticks = "tick_since_sync_sec w"
  let ?tstamps = "tstamp_since_sync (ext_rtc_epoch32 env (uptime_ms w)) w"
  from assms(4) have small: "uint ?ticks < 10" and tol: "drift_tol ?ticks = 10"
    using drift_tol_small by blast+
  have wrap: "uint (?ticks - 10) = uint ?ticks + 4294967286"
    using small by (rule uint_sub_10_wrap)
  have "uint ?tstamps \<le> 2147483648"
    unfolding tstamp_since_sync_def by (rule uint_abs_int32)
  moreover have "0 \<le> uint ?ticks" by simp
  ultimately have "uint ?tstamps < uint (?ticks - 10)"
    using wrap by linarith
  then have fires: "?tstamps < ?ticks - 10"
    by (simp add: word_less_def)
  have res: "fst (detect_drift cfg env w) = sint (?tstamps - ?ticks)"
    using assms(1-3) fires tol
    by (simp add: detect_drift_def get_external_rtc_timestamp_def Let_def)
  show ?thesis
    using wrap fires res tol by (simp add: sint_eq_0_u32)
qed

theorem detect_drift_wraps_below_tolerance_witness:
  "EXTERNAL_RTC_ENABLED example_config
   \<and> last_drift_check_tick drift_world \<noteq> 0
   \<and> last_drift_check_tstamp drift_world \<noteq> 0
   \<and> uint (tick_since_sync_sec drift_world) < drift_tol (tick_since_sync_sec drift_world)
   \<and> fst (detect_drift example_config drift_env drift_world) = 1"
proof -
  have h1: "EXTERNAL_RTC_ENABLED example_config" by (simp add: example_config_def)
  have h2: "last_drift_check_tick drift_world \<noteq> 0" by (simp add: drift_world_def)
  have h3: "last_drift_check_tstamp drift_world \<noteq> 0" by (simp add: drift_world_def)
  have h4: "uint (tick_since_sync_sec drift_world) < drift_tol (tick_since_sync_sec drift_world)"
    by (simp add: drift_world_values)
  have e: "ext_rtc_epoch32 drift_env (uptime_ms drift_world) = 1006"
    by (simp add: drift_env_def)
  show ?thesis
    using h1 h2 h3 h4 detect_drift_wraps_below_tolerance [OF h1 h2 h3 h4, of drift_env]
    by (simp add: e drift_world_values)
qed

text \<open>
  Claim C10.  \<open>detect_drift\<close> returns 0 as soon as one of the two checkpoint fields is
  zero.  In particular, when \<open>reset_drift_check\<close> runs while the system clock reads 0,
  the stored checkpoint timestamp is 0, and \<open>detect_drift\<close> returns 0 in every later
  state that still holds this checkpoint timestamp.
\<close>

theorem detect_drift_zero_checkpoint:
  "(last_drift_check_tick w = 0 \<or> last_drift_check_tstamp w = 0
      \<longrightarrow> fst (detect_drift cfg env w) = 0)
   \<and> (get_timestamp w0 = 0
      \<longrightarrow> last_drift_check_tstamp (reset_drift_check w0) = 0
          \<and> (\<forall>w'. last_drift_check_tstamp w' = last_drift_check_tstamp (reset_drift_check w0)
                 \<longrightarrow> fst (detect_drift cfg env w') = 0))"
  by (simp add: detect_drift_def get_external_rtc_timestamp_def reset_drift_check_def)

theorem detect_drift_zero_checkpoint_witness:
  "last_drift_check_tick (reset_drift_check unset_clock_world) \<noteq> 0
   \<and> last_drift_check_tstamp (reset_drift_check unset_clock_world) = 0
   \<and> get_timestamp unset_clock_world = 0
   \<and> fst (detect_drift example_config drift_env (reset_drift_check unset_clock_world)) = 0"
proof -
  have c: "get_timestamp unset_clock_world = 0"
    by (simp add: get_timestamp_def unset_clock_world_def)
  have t: "last_drift_check_tick (reset_drift_check unset_clock_world) \<noteq> 0"
    by (simp add: reset_drift_check_def millis_def unset_clock_world_def)
  show ?thesis
    using c t
      detect_drift_zero_checkpoint [of "reset_drift_check unset_clock_world" example_config
        drift_env unset_clock_world]
    by simp
qed

section \<open>The HTTP source\<close>

text \<open>
  Claim C3, as amended.  \<open>sync_time_from_http\<close> issues exactly one HTTP GET when the
  configured URL parses, and none when it does not.  A body whose length is not 10 is
  rejected as soon as the request has returned, before anything is parsed.  A body of
  10 characters that are not all digits never reaches \<open>set_system_time\<close>, provided that
  \<open>FAIL_CHECK_TIMESTAMP_START\<close> is at least 999999999 and \<open>FAIL_CHECK_TIMESTAMP_END\<close> at
  most 3290672329: whatever \<open>sscanf\<close> reads from such a body, less the latency offset, is
  then implausible.  In each of these cases the function returns an error, no
  \<open>settimeofday\<close> takes place and the system clock is unchanged.
\<close>

theorem http_malformed_body_rejected:
  assumes "http_get env (uptime_ms w) = (r, body, d)"
  shows "http_gets (snd (sync_time_from_http cfg env w))
           = http_gets w + (if url_explode_ok cfg then 1 else 0)
       \<and> (url_explode_ok cfg \<and> length (take 19 body) \<noteq> 10 \<longrightarrow>
            sync_time_from_http cfg env w = (RET_ERROR, elapse d (emit EvHttpGet w)))
       \<and> ((length (take 19 body) \<noteq> 10
             \<or> (\<not> list_all isdigit (take 19 body)
                 \<and> 999999999 \<le> FAIL_CHECK_TIMESTAMP_START cfg
                 \<and> FAIL_CHECK_TIMESTAMP_END cfg \<le> 3290672329)) \<longrightarrow>
            fst (sync_time_from_http cfg env w) = RET_ERROR
            \<and> commits (snd (sync_time_from_http cfg env w)) = commits w
            \<and> wall_offset_ms (snd (sync_time_from_http cfg env w)) = wall_offset_ms w)"
proof (cases "url_explode_ok cfg")
  case False
  then show ?thesis by (simp add: sync_time_from_http_bad_url)
next
  case url: True
  define w1 where "w1 = elapse d (emit EvHttpGet w)"
  define resp where "resp = take 19 body"
  define t where "t = http_candidate (millis w) (millis w1) resp"
  obtain b w2 where c: "check_timechange_safe cfg t w1 = (b, w2)"
    by (cases "check_timechange_safe cfg t w1")
  note e = sync_time_from_http_unfold [OF assms(1) w1_def resp_def t_def c]
  have w2: "w2 = snd (check_timechange_safe cfg t w1)" using c by simp
  have g1: "http_gets w1 = http_gets w + 1" by (simp add: w1_def)
  have g2: "http_gets w2 = http_gets w + 1" by (simp add: w2 g1)
  have gets: "http_gets (snd (sync_time_from_http cfg env w)) = http_gets w + 1"
    using url g1 g2 by (simp add: e)
  have short: "length resp \<noteq> 10 \<Longrightarrow> sync_time_from_http cfg env w = (RET_ERROR, w1)"
    using url by (simp add: e)
  have bad: "fst (sync_time_from_http cfg env w) = RET_ERROR
            \<and> commits (snd (sync_time_from_http cfg env w)) = commits w
            \<and> wall_offset_ms (snd (sync_time_from_http cfg env w)) = wall_offset_ms w"
    if nd: "length resp \<noteq> 10 \<or> (\<not> list_all isdigit resp
              \<and> 999999999 \<le> FAIL_CHECK_TIMESTAMP_START cfg
              \<and> FAIL_CHECK_TIMESTAMP_END cfg \<le> 3290672329)"
  proof (cases "length resp = 10")
    case True
    then have "\<not> tstamp_valid cfg t"
      unfolding t_def using nd by (intro malformed_candidate_rejected) simp_all
    then have "check_timechange_safe cfg t w1 = (False, w1)"
      by (simp add: check_timechange_safe_def)
    then have "b = False" "w2 = w1" using c by simp_all
    then show ?thesis using url by (simp add: e w1_def)
  next
    case False
    then show ?thesis using short by (simp add: w1_def)
  qed
  show ?thesis
    using url gets short bad by (simp add: resp_def [symmetric] w1_def [symmetric])
qed

theorem http_malformed_body_rejected_witness:
  "url_explode_ok example_config
   \<and> 999999999 \<le> FAIL_CHECK_TIMESTAMP_START example_config
   \<and> FAIL_CHECK_TIMESTAMP_END example_config \<le> 3290672329
   \<and> http_get short_body_env (uptime_ms gate_world) = (RET_OK, ''170000000'', 2500)
   \<and> length (take 19 ''170000000'') \<noteq> 10
   \<and> sync_time_from_http example_config short_body_env gate_world
       = (RET_ERROR, elapse 2500 (emit EvHttpGet gate_world))
   \<and> http_get failing_env (uptime_ms gate_world) = (RET_OK, ''abcdefghij'', 2500)
   \<and> \<not> list_all isdigit (take 19 ''abcdefghij'')
   \<and> fst (sync_time_from_http example_config failing_env gate_world) = RET_ERROR
   \<and> commits (snd (sync_time_from_http example_config failing_env gate_world))
       = commits gate_world
   \<and> wall_offset_ms (snd (sync_time_from_http example_config failing_env gate_world))
       = wall_offset_ms gate_world
   \<and> http_gets (snd (sync_time_from_http example_config failing_env gate_world))
       = http_gets gate_world + 1"
  using example_config_window nine_digits_run ten_letters_run
    http_malformed_body_rejected [OF nine_digits_run(1), of example_config]
    http_malformed_body_rejected [OF ten_letters_run(1), of example_config]
  by simp

text \<open>
  Claim C3 as it stands does not hold without these conditions.  With a URL that does
  not parse, a call issues no GET.  With a plausibility window that reaches up to
  \<open>2^32 - 1\<close> and safety disabled, the body \<open>abcdefghij\<close> is committed: \<open>sscanf\<close> stores
  nothing, the timestamp stays 0, the offset of 3 seconds wraps it to 4294967293, and
  the system clock is set to that.
\<close>

theorem http_no_get_or_commit_from_letters:
  "http_gets (snd (sync_time_from_http bad_url_config failing_env gate_world))
     = http_gets gate_world
   \<and> http_get failing_env (uptime_ms boot_world) = (RET_OK, ''abcdefghij'', 2500)
   \<and> fst (sync_time_from_http open_window_config failing_env boot_world) = RET_OK
   \<and> new_events boot_world (snd (sync_time_from_http open_window_config failing_env boot_world))
       = [EvHttpGet, EvSetTimeOfDay 4294967293]
   \<and> get_timestamp (snd (sync_time_from_http open_window_config failing_env boot_world))
       = 4294967293"
  by (simp add: sync_time_from_http_def http_candidate_def sscanf_u_letters offset_sec_2500
      check_timechange_safe_def tstamp_valid_def set_system_time_def settimeofday_def
      new_events_def millis_def get_timestamp_def http_gets_def
      bad_url_config_def open_window_config_def boot_world_def
      example_config_def failing_env_def dead_env_def gate_world_def emit_def elapse_def)

text \<open>
  Claim C4, as amended.  For a request that starts at tick 1000 ms and ends at tick
  3500 ms with the body \<open>1700000000\<close>, the round trip of 2.5 seconds is rounded to 3
  (to nearest, ties away from zero), and the latency-compensated candidate is
  \<open>1700000000 - 3 = 1699999997\<close>.
\<close>

theorem http_latency_compensation:
  "offset_sec (3500 - 1000) = 3
   \<and> http_candidate 1000 3500 ''1700000000'' = 1699999997"
  by (simp add: http_candidate_def offset_sec_2500 sscanf_u_1700000000)

text \<open>The candidate is not 1699999998, the value that claim C4 gives.\<close>

theorem http_latency_compensation_not_1699999998:
  "http_candidate 1000 3500 ''1700000000'' \<noteq> 1699999998"
  by (simp add: http_candidate_def offset_sec_2500 sscanf_u_1700000000)

section \<open>The orchestrator\<close>

text \<open>
  Claim C8.  For every value of \<open>enable_safety\<close> and on every path through \<open>sync\<close>,
  \<open>timechange_safety_enabled\<close> is true when \<open>sync\<close> returns.
\<close>

theorem sync_reenables_safety:
  "timechange_safety_enabled (snd (sync cfg env enable_safety w))"
  by (simp add: sync_def Let_def enable_timechange_safety_def split: prod.splits)

text \<open>
  Claim C5.  When every time source in the fallback chain of \<open>sync\<close> fails (its
  plausibility or tolerance check rejects the value, or the source returns an error),
  \<open>sync\<close> returns failure, the system clock is left as it was and no \<open>settimeofday\<close>
  has taken effect, and \<open>_last_sync_tick\<close> holds the tick at which \<open>sync\<close> returns.
\<close>

theorem sync_all_sources_fail:
  assumes "every_source_fails cfg env enable_safety w"
  shows "fst (sync cfg env enable_safety w) = RET_ERROR
       \<and> wall_offset_ms (snd (sync cfg env enable_safety w)) = wall_offset_ms w
       \<and> commits (snd (sync cfg env enable_safety w)) = commits w
       \<and> last_sync_tick (snd (sync cfg env enable_safety w))
           = millis (snd (sync cfg env enable_safety w))"
proof -
  define w1 where "w1 = enable_timechange_safety enable_safety
                  (w\<lparr>timechange_safety_enabled := enable_safety\<rparr>)"
  obtain ret ts upd w2 where c: "sync_sources cfg env w1 = ((ret, ts, upd), w2)"
    by (cases "sync_sources cfg env w1") auto
  define w3 where "w3 = (if EXTERNAL_RTC_ENABLED cfg \<and> upd \<and> ret = RET_OK
               then snd (set_external_rtc_time cfg env (get_timestamp w2) w2)
               else w2)"
  define w4 where "w4 = emit (EvLogRtcSync (get_timestamp w1) ts) w3"
  note e = sync_unfold [OF w1_def c w3_def w4_def]
  have "fst (fst (sync_sources cfg env w1)) = RET_ERROR"
    using assms
    by (simp add: sync_sources_fails_iff every_source_fails_def sync_entry_def w1_def)
  then have ret: "ret = RET_ERROR" using c by simp
  have f1: "wall_offset_ms w1 = wall_offset_ms w" "commits w1 = commits w"
    by (simp_all add: w1_def enable_timechange_safety_def)
  have r: "wall_offset_ms w2 = wall_offset_ms w \<and> commits w2 = commits w"
    using sync_sources_result [of cfg env w1] c f1 ret by simp
  have f4: "wall_offset_ms w4 = wall_offset_ms w2" "commits w4 = commits w2"
    by (simp_all add: w4_def w3_def)
  show ?thesis
    using ret r f4 by (simp add: e enable_timechange_safety_def millis_def)
qed

theorem sync_all_sources_fail_witness:
  "every_source_fails example_config failing_env True gate_world
   \<and> fst (sync example_config failing_env True gate_world) = RET_ERROR
   \<and> wall_offset_ms (snd (sync example_config failing_env True gate_world))
       = wall_offset_ms gate_world
   \<and> commits (snd (sync example_config failing_env True gate_world)) = commits gate_world
   \<and> last_sync_tick (snd (sync example_config failing_env True gate_world)) = 210500
   \<and> millis (snd (sync example_config failing_env True gate_world)) = 210500"
  using failing_env_every_source_fails failing_sync_run(2)
    sync_all_sources_fail [OF failing_env_every_source_fails]
  by simp

text \<open>
  Claim C6, as amended.  When the modem is not connected and the connection attempt
  fails, with the external RTC enabled, the external RTC is the only time source
  \<open>sync\<close> consults: no HTTP request, no NTP trigger and no read of the modem clock takes
  place, and the external RTC is not written.  The chip is read once for the candidate;
  when the candidate is committed and \<open>sync\<close> returns success, \<open>print_time\<close> reads it a
  second time for display, so that there are two reads then and one otherwise.
\<close>

theorem sync_offline_uses_only_ext_rtc:
  assumes "\<not> is_gprs_connected env (uptime_ms w)"
    and "fst (connect_persist env (uptime_ms w)) \<noteq> RET_OK"
    and "EXTERNAL_RTC_ENABLED cfg"
  shows "count_list (new_events w (snd (sync cfg env enable_safety w))) EvExtRtcRead
           = (if fst (sync cfg env enable_safety w) = RET_OK then 2 else 1)
       \<and> set (filter is_time_source_read (new_events w (snd (sync cfg env enable_safety w))))
           = {EvExtRtcRead}
       \<and> filter is_network_source (new_events w (snd (sync cfg env enable_safety w))) = []
       \<and> filter is_ext_rtc_write (new_events w (snd (sync cfg env enable_safety w))) = []"
proof -
  obtain r d where cp: "connect_persist env (uptime_ms w) = (r, d)"
    by (cases "connect_persist env (uptime_ms w)")
  have r: "r = RET_ERROR" using assms(2) cp RetResult_cases [of r] by simp
  show ?thesis
    using assms(1,3) cp r
    by (auto simp: sync_def sync_sources_def GSM_connect_persist_def sync_time_from_ext_rtc_def
        get_external_rtc_timestamp_def check_timechange_safe_def settimeofday_def print_time_def
        enable_timechange_safety_def reset_drift_check_def new_events_def Let_def
        split: if_splits)
qed

theorem sync_offline_uses_only_ext_rtc_witness:
  "\<not> is_gprs_connected offline_env (uptime_ms gate_world)
   \<and> fst (connect_persist offline_env (uptime_ms gate_world)) \<noteq> RET_OK
   \<and> \<not> is_gprs_connected dead_env (uptime_ms gate_world)
   \<and> fst (connect_persist dead_env (uptime_ms gate_world)) \<noteq> RET_OK
   \<and> EXTERNAL_RTC_ENABLED example_config
   \<and> fst (sync example_config offline_env True gate_world) = RET_OK
   \<and> new_events gate_world (snd (sync example_config offline_env True gate_world)) =
       [EvConnectPersist, EvExtRtcRead, EvSetTimeOfDay 1700000030, EvExtRtcRead,
        EvLogRtcSync 1700000000 TIME_SOURCE_OTHER]
   \<and> fst (sync example_config dead_env True gate_world) = RET_ERROR
   \<and> count_list (new_events gate_world (snd (sync example_config dead_env True gate_world)))
         EvExtRtcRead = 1
   \<and> filter is_network_source
         (new_events gate_world (snd (sync example_config offline_env True gate_world))) = []
   \<and> filter is_ext_rtc_write
         (new_events gate_world (snd (sync example_config offline_env True gate_world))) = []"
  using offline_conditions offline_sync_run dead_sync_run(1)
    sync_offline_uses_only_ext_rtc [OF offline_conditions(1,2,5), of True]
    sync_offline_uses_only_ext_rtc [OF offline_conditions(3,4,5), of True]
  by simp

text \<open>
  Claim C6 as it stands speaks of exactly one read of the external RTC.  In the run
  without a network in which the external RTC value passes the gate and is committed,
  the chip is read twice.
\<close>

theorem sync_offline_reads_ext_rtc_twice:
  "\<not> is_gprs_connected offline_env (uptime_ms gate_world)
   \<and> fst (connect_persist offline_env (uptime_ms gate_world)) \<noteq> RET_OK
   \<and> EXTERNAL_RTC_ENABLED example_config
   \<and> fst (sync example_config offline_env True gate_world) = RET_OK
   \<and> count_list (new_events gate_world (snd (sync example_config offline_env True gate_world)))
         EvExtRtcRead = 2"
  using offline_conditions(1,2,5) offline_sync_run by simp

end
